theory Spec2Isabelle
  imports Main "HOL-Library.Word" "HOL-Library.Sublist"
begin

section \<open>Go values shared by the three source files\<close>

text \<open>
  A Go call either returns normally, returns a non-nil \<open>error\<close> (carried here by its
  message), or panics (a nil dereference, a slice expression out of range).
\<close>

datatype 'a res = Ok 'a | Err string | Panic string

text \<open>\<open>int64\<close> is a 64-bit word; a \<open>*int64\<close> is an optional one (\<open>None\<close> is nil).\<close>

type_synonym int64 = "64 word"

text \<open>
  A \<open>time.Time\<close> is read as its instant, in nanoseconds since the Unix epoch.
  \<open>time.Time{}\<close> is January 1 of year 1, 00:00:00 UTC, which lies 62135596800 seconds
  before the epoch.
\<close>

type_synonym time_Time = int

definition zero_Time :: time_Time where
  "zero_Time = - (62135596800 * 1000000000)"

text \<open>
  A slice expression \<open>s[lo:hi]\<close> on a string panics unless \<open>0 \<le> lo \<le> hi \<le> len(s)\<close>.
\<close>

definition go_slice :: "string \<Rightarrow> int \<Rightarrow> int \<Rightarrow> string res" where
  "go_slice s lo hi =
     (if 0 \<le> lo \<and> lo \<le> hi \<and> hi \<le> int (length s)
      then Ok (take (nat (hi - lo)) (drop (nat lo) s))
      else Panic ''slice bounds out of range'')"

section \<open>Azure DevOps payload types: \<open>CustomTime\<close>\<close>

record CustomTime =
  Time :: time_Time

text \<open>The layout constant \<open>time.RFC3339\<close>.\<close>

definition RFC3339 :: string where
  "RFC3339 = ''2006-01-02T15:04:05Z07:00''"

text \<open>
  \<open>(ct *CustomTime) UnmarshalJSON(b []byte) error\<close>. The standard library's
  \<open>time.Parse\<close> is a parameter: given the layout and the value it yields the parsed
  time or an error. \<open>Ok ct'\<close> is a nil error with the receiver updated to \<open>ct'\<close>;
  on \<open>Err\<close> the receiver is left as it was.
\<close>

definition UnmarshalJSON ::
  "(string \<Rightarrow> string \<Rightarrow> string + time_Time) \<Rightarrow> CustomTime \<Rightarrow> string \<Rightarrow> CustomTime res" where
  "UnmarshalJSON time_Parse ct b =
     (let s = b in
      case go_slice s 1 (int (length s) - 1) of
        Panic m \<Rightarrow> Panic m
      | Err e \<Rightarrow> Err e
      | Ok s' \<Rightarrow>
          if s' = ''0001-01-01T00:00:00'' \<or> s' = '''' then Ok (ct\<lparr>Time := zero_Time\<rparr>)
          else (case time_Parse RFC3339 s' of
                  Inl err \<Rightarrow> Err err
                | Inr t \<Rightarrow> Ok (ct\<lparr>Time := t\<rparr>)))"

text \<open>The raw bytes of a JSON string token: the content between two double quotes.\<close>

definition json_quoted :: "string \<Rightarrow> string" where
  "json_quoted s = CHR 0x22 # s @ [CHR 0x22]"

text \<open>
  A stand-in for \<open>time.Parse\<close> that knows one RFC 3339 value, used to run the
  decoder on concrete inputs.
\<close>

definition sample_Parse :: "string \<Rightarrow> string \<Rightarrow> string + time_Time" where
  "sample_Parse layout v =
     (if layout = RFC3339 \<and> v = ''2024-05-06T07:08:09Z''
      then Inr (1714979289 * 1000000000)
      else Inl ''parsing time: cannot parse'')"

section \<open>The GitHub provider: reporting a status (\<open>status.go\<close>)\<close>

subsection \<open>Data\<close>

text \<open>The fields of \<open>provider.StatusOpts\<close>, \<open>info.PacOpts\<close> and \<open>info.Event\<close> that
  \<open>status.go\<close> reads. \<open>InfoFromRepo\<close> is \<open>runevent.Provider.InfoFromRepo\<close>.\<close>

record StatusOpts =
  PipelineRunName :: string
  OriginalPipelineRunName :: string
  Status :: string
  Conclusion :: string
  Title :: string
  Summary :: string
  Text :: string
  DetailsURL :: string

record PacOpts =
  ApplicationName :: string
  LogURL :: string

record Event =
  Organization :: string
  Repository :: string
  SHA :: string
  EventType :: string
  PullRequestNumber :: int
  InfoFromRepo :: bool

text \<open>The request and response structs of the go-github library. A pointer field is an
  option (\<open>None\<close> is nil); field names carry a prefix naming their struct.\<close>

record CheckRun =
  cr_ID :: "int64 option"
  cr_ExternalID :: "string option"

record ListCheckRunsResults =
  lcr_Total :: "int option"
  lcr_CheckRuns :: "CheckRun list"

record CreateCheckRunOptions =
  ccr_Name :: string
  ccr_HeadSHA :: string
  ccr_Status :: "string option"
  ccr_DetailsURL :: "string option"
  ccr_ExternalID :: "string option"
  ccr_StartedAt :: "time_Time option"

record CheckRunOutput =
  out_Title :: "string option"
  out_Summary :: "string option"
  out_Text :: "string option"

record UpdateCheckRunOptions =
  ucr_Name :: string
  ucr_Status :: "string option"
  ucr_Output :: "CheckRunOutput option"
  ucr_DetailsURL :: "string option"
  ucr_CompletedAt :: "time_Time option"
  ucr_Conclusion :: "string option"

record RepoStatus =
  rs_State :: "string option"
  rs_TargetURL :: "string option"
  rs_Description :: "string option"
  rs_Context :: "string option"
  rs_CreatedAt :: "time_Time option"

record IssueComment =
  ic_Body :: "string option"

text \<open>The remote calls \<open>status.go\<close> issues through \<open>v.Client\<close>, with their arguments.\<close>

datatype api_call =
    ListCheckRunsForRef string string string "int64 option"
  | CreateCheckRun string string CreateCheckRunOptions
  | UpdateCheckRun string string int64 UpdateCheckRunOptions
  | RepoCreateStatus string string string RepoStatus
  | IssueCreateComment string string int IssueComment

text \<open>
  The GitHub client is an external collaborator: each of its services is a parameter that
  maps the request and the state \<open>'r\<close> of the remote side to a reply (\<open>Inl\<close> the error
  of the call) and the remote side's next state.
\<close>

record 'r Client =
  Checks_ListCheckRunsForRef ::
    "string \<Rightarrow> string \<Rightarrow> string \<Rightarrow> int64 option \<Rightarrow> 'r \<Rightarrow> (string + ListCheckRunsResults) \<times> 'r"
  Checks_CreateCheckRun ::
    "string \<Rightarrow> string \<Rightarrow> CreateCheckRunOptions \<Rightarrow> 'r \<Rightarrow> (string + CheckRun) \<times> 'r"
  Checks_UpdateCheckRun ::
    "string \<Rightarrow> string \<Rightarrow> int64 \<Rightarrow> UpdateCheckRunOptions \<Rightarrow> 'r \<Rightarrow> string option \<times> 'r"
  Repositories_CreateStatus ::
    "string \<Rightarrow> string \<Rightarrow> string \<Rightarrow> RepoStatus \<Rightarrow> 'r \<Rightarrow> string option \<times> 'r"
  Issues_CreateComment ::
    "string \<Rightarrow> string \<Rightarrow> int \<Rightarrow> IssueComment \<Rightarrow> 'r \<Rightarrow> string option \<times> 'r"

text \<open>The fields of the receiver \<open>v *Provider\<close> that do not change during a call.\<close>

record 'r Provider =
  Client :: "'r Client option"
  ApplicationID :: "int64 option"

text \<open>A value stored in the \<open>sync.Map\<close> \<open>v.CheckRunIDS\<close> has the dynamic type
  \<open>*int64\<close> or another one.\<close>

datatype any = Int64Ptr "int64 option" | OtherValue

text \<open>
  What a call can change or observe beyond its arguments: the remote side, the map
  \<open>v.CheckRunIDS\<close>, the remote calls issued so far (oldest first), and the wall clock,
  whose \<open>n\<close>-th reading is \<open>clock n\<close>.
\<close>

record 'r world =
  remote :: 'r
  CheckRunIDS :: "string \<rightharpoonup> any"
  calls :: "api_call list"
  clock :: "nat \<Rightarrow> time_Time"
  ticks :: nat

definition time_Now :: "'r world \<Rightarrow> time_Time \<times> 'r world" where
  "time_Now w = (clock w (ticks w), w\<lparr>ticks := Suc (ticks w)\<rparr>)"

text \<open>Issuing a remote call: it is recorded, and the remote side moves on.\<close>

definition remote_call :: "api_call \<Rightarrow> ('r \<Rightarrow> 'a \<times> 'r) \<Rightarrow> 'r world \<Rightarrow> 'a \<times> 'r world" where
  "remote_call c f w =
     (case f (remote w) of (reply, r') \<Rightarrow> (reply, w\<lparr>remote := r', calls := calls w @ [c]\<rparr>))"

subsection \<open>Functions\<close>

definition getCheckName :: "StatusOpts \<Rightarrow> PacOpts \<Rightarrow> string" where
  "getCheckName status pacopts =
     (if ApplicationName pacopts \<noteq> '''' then
        (if OriginalPipelineRunName status = '''' then ApplicationName pacopts
         else ApplicationName pacopts @ '' / '' @ OriginalPipelineRunName status)
      else OriginalPipelineRunName status)"

text \<open>The loop of \<open>getExistingCheckRunID\<close> over \<open>res.CheckRuns\<close>; \<open>*checkrun.ExternalID\<close>
  panics on a nil pointer.\<close>

fun find_ExternalID :: "CheckRun list \<Rightarrow> string \<Rightarrow> int64 option res" where
  "find_ExternalID [] name = Ok None"
| "find_ExternalID (checkrun # rest) name =
     (case cr_ExternalID checkrun of
        None \<Rightarrow> Panic ''nil pointer dereference''
      | Some e \<Rightarrow> if e = name then Ok (cr_ID checkrun) else find_ExternalID rest name)"

definition getExistingCheckRunID ::
  "'r Client \<Rightarrow> int64 option \<Rightarrow> Event \<Rightarrow> StatusOpts \<Rightarrow> 'r world \<Rightarrow> int64 option res \<times> 'r world" where
  "getExistingCheckRunID c appID runevent status w =
     (case remote_call
             (ListCheckRunsForRef (Organization runevent) (Repository runevent) (SHA runevent) appID)
             (Checks_ListCheckRunsForRef c (Organization runevent) (Repository runevent)
                (SHA runevent) appID) w of
        (Inl err, w') \<Rightarrow> (Err err, w')
      | (Inr res, w') \<Rightarrow>
          (case lcr_Total res of
             None \<Rightarrow> (Panic ''nil pointer dereference'', w')
           | Some n \<Rightarrow>
               if n = 0 then (Ok None, w')
               else (find_ExternalID (lcr_CheckRuns res) (PipelineRunName status), w')))"

definition createCheckRunStatus ::
  "'r Client \<Rightarrow> Event \<Rightarrow> PacOpts \<Rightarrow> StatusOpts \<Rightarrow> 'r world \<Rightarrow> int64 option res \<times> 'r world" where
  "createCheckRunStatus c runevent pacopts status w =
     (case time_Now w of (now, w1) \<Rightarrow>
        let checkrunoption = \<lparr>ccr_Name = getCheckName status pacopts,
                               ccr_HeadSHA = SHA runevent,
                               ccr_Status = Some ''in_progress'',
                               ccr_DetailsURL = Some (LogURL pacopts),
                               ccr_ExternalID = Some (PipelineRunName status),
                               ccr_StartedAt = Some now\<rparr>
        in case remote_call
                  (CreateCheckRun (Organization runevent) (Repository runevent) checkrunoption)
                  (Checks_CreateCheckRun c (Organization runevent) (Repository runevent)
                     checkrunoption) w1 of
             (Inl err, w2) \<Rightarrow> (Err err, w2)
           | (Inr checkRun, w2) \<Rightarrow> (Ok (cr_ID checkRun), w2))"

text \<open>
  \<open>getOrUpdateCheckRunStatus\<close>, lines 84 to 90: the lookup in \<open>v.CheckRunIDS\<close> and the
  type assertion. The result is the pair \<open>(checkRunID, ok)\<close> as line 91 finds it.
\<close>

definition load_checkRunID :: "StatusOpts \<Rightarrow> 'r world \<Rightarrow> (int64 option \<times> bool) res" where
  "load_checkRunID status w =
     (case CheckRunIDS w (PipelineRunName status) of
        None \<Rightarrow> Ok (None, False)
      | Some (Int64Ptr p) \<Rightarrow> Ok (p, True)
      | Some OtherValue \<Rightarrow> Err ''api error: cannot convert checkrunid'')"

text \<open>Lines 91 to 98: the error of \<open>getExistingCheckRunID\<close> is discarded; a nil
  identifier leads to \<open>createCheckRunStatus\<close>, whose error is returned. Both go through
  \<open>v.Client\<close>, which panics when it is nil.\<close>

definition find_or_create ::
  "'r Provider \<Rightarrow> Event \<Rightarrow> PacOpts \<Rightarrow> StatusOpts \<Rightarrow> 'r world \<Rightarrow> int64 option res \<times> 'r world" where
  "find_or_create v runevent pacopts status w =
     (case Client v of
        None \<Rightarrow> (Panic ''nil pointer dereference'', w)
      | Some c \<Rightarrow>
          (case getExistingCheckRunID c (ApplicationID v) runevent status w of
             (Panic m, w1) \<Rightarrow> (Panic m, w1)
           | (Ok (Some checkRunID), w1) \<Rightarrow> (Ok (Some checkRunID), w1)
           | (_, w1) \<Rightarrow> createCheckRunStatus c runevent pacopts status w1))"

text \<open>Line 99: \<open>v.CheckRunIDS.Store(status.PipelineRunName, checkRunID)\<close>.\<close>

definition store_checkRunID :: "StatusOpts \<Rightarrow> int64 option \<Rightarrow> 'r world \<Rightarrow> 'r world" where
  "store_checkRunID status checkRunID w =
     w\<lparr>CheckRunIDS := (CheckRunIDS w)(PipelineRunName status \<mapsto> Int64Ptr checkRunID)\<rparr>"

text \<open>Lines 101 to 121: the update that is sent.\<close>

definition update_options ::
  "StatusOpts \<Rightarrow> PacOpts \<Rightarrow> 'r world \<Rightarrow> UpdateCheckRunOptions \<times> 'r world" where
  "update_options status pacopts w =
     (let checkRunOutput = \<lparr>out_Title = Some (Title status),
                             out_Summary = Some (Summary status),
                             out_Text = Some (Text status)\<rparr>;
          opts = \<lparr>ucr_Name = getCheckName status pacopts,
                   ucr_Status = Some (Status status),
                   ucr_Output = Some checkRunOutput,
                   ucr_DetailsURL = None,
                   ucr_CompletedAt = None,
                   ucr_Conclusion = None\<rparr>;
          opts1 = (if DetailsURL status \<noteq> '''' then opts\<lparr>ucr_DetailsURL := Some (DetailsURL status)\<rparr>
                   else opts)
      in if Conclusion status \<noteq> '''' \<and> Conclusion status \<noteq> ''pending''
         then (case time_Now w of (now, w1) \<Rightarrow>
                 (opts1\<lparr>ucr_CompletedAt := Some now, ucr_Conclusion := Some (Conclusion status)\<rparr>, w1))
         else (opts1, w))"

text \<open>Lines 101 to 124. After the options are built, \<open>v.Client\<close> and \<open>*checkRunID\<close> each
  panic on a nil pointer.\<close>

definition send_update ::
  "'r Provider \<Rightarrow> Event \<Rightarrow> PacOpts \<Rightarrow> StatusOpts \<Rightarrow> int64 option \<Rightarrow> 'r world
     \<Rightarrow> unit res \<times> 'r world" where
  "send_update v runevent pacopts status checkRunID w =
     (case update_options status pacopts w of (opts, w1) \<Rightarrow>
        (case Client v of
           None \<Rightarrow> (Panic ''nil pointer dereference'', w1)
         | Some c \<Rightarrow>
             (case checkRunID of
                None \<Rightarrow> (Panic ''nil pointer dereference'', w1)
              | Some cid \<Rightarrow>
                  (case remote_call
                          (UpdateCheckRun (Organization runevent) (Repository runevent) cid opts)
                          (Checks_UpdateCheckRun c (Organization runevent) (Repository runevent)
                             cid opts) w1 of
                     (None, w2) \<Rightarrow> (Ok (), w2)
                   | (Some err, w2) \<Rightarrow> (Err err, w2)))))"

text \<open>\<open>getOrUpdateCheckRunStatus\<close>.\<close>

definition getOrUpdateCheckRunStatus ::
  "'r Provider \<Rightarrow> Event \<Rightarrow> PacOpts \<Rightarrow> StatusOpts \<Rightarrow> 'r world \<Rightarrow> unit res \<times> 'r world" where
  "getOrUpdateCheckRunStatus v runevent pacopts status w =
     (case load_checkRunID status w of
        Err e \<Rightarrow> (Err e, w)
      | Panic m \<Rightarrow> (Panic m, w)
      | Ok (cached, ok) \<Rightarrow>
          (case (if \<not> ok then find_or_create v runevent pacopts status w
                 else (Ok cached, w)) of
             (Err e, w1) \<Rightarrow> (Err e, w1)
           | (Panic m, w1) \<Rightarrow> (Panic m, w1)
           | (Ok checkRunID, w1) \<Rightarrow>
               send_update v runevent pacopts status checkRunID
                 (store_checkRunID status checkRunID w1)))"

text \<open>\<open>createStatusCommit\<close>, lines 132 to 140: the switch on \<open>status.Conclusion\<close> and the
  test of \<open>status.Status\<close>, both assigning to the local copy of \<open>status\<close>.\<close>

definition commit_conclusion :: "StatusOpts \<Rightarrow> StatusOpts" where
  "commit_conclusion status0 =
     (let status1 = (if Conclusion status0 = ''skipped'' then status0\<lparr>Conclusion := ''success''\<rparr>
                     else if Conclusion status0 = ''neutral'' then status0\<lparr>Conclusion := ''success''\<rparr>
                     else status0)
      in if Status status1 = ''in_progress'' then status1\<lparr>Conclusion := ''pending''\<rparr>
         else status1)"

definition createStatusCommit ::
  "'r Provider \<Rightarrow> Event \<Rightarrow> PacOpts \<Rightarrow> StatusOpts \<Rightarrow> 'r world \<Rightarrow> unit res \<times> 'r world" where
  "createStatusCommit v runevent pacopts status0 w0 =
     (case time_Now w0 of (now, w) \<Rightarrow>
      let status = commit_conclusion status0;
          ghstatus =\<lparr>rs_State = Some (Conclusion status),
                       rs_TargetURL = Some (DetailsURL status),
                       rs_Description = Some (Title status),
                       rs_Context = Some (getCheckName status pacopts),
                       rs_CreatedAt = Some now\<rparr>
      in case Client v of
           None \<Rightarrow> (Panic ''nil pointer dereference'', w)
         | Some c \<Rightarrow>
             (case remote_call
                     (RepoCreateStatus (Organization runevent) (Repository runevent) (SHA runevent)
                        ghstatus)
                     (Repositories_CreateStatus c (Organization runevent) (Repository runevent)
                        (SHA runevent) ghstatus) w of
                (Some err, w1) \<Rightarrow> (Err err, w1)
              | (None, w1) \<Rightarrow>
                  if Status status = ''completed'' \<and> Text status \<noteq> ''''
                     \<and> EventType runevent = ''pull_request''
                  then
                    (let comment = \<lparr>ic_Body = Some (Summary status @ ''<br>'' @ Text status)\<rparr>
                     in case remote_call
                               (IssueCreateComment (Organization runevent) (Repository runevent)
                                  (PullRequestNumber runevent) comment)
                               (Issues_CreateComment c (Organization runevent) (Repository runevent)
                                  (PullRequestNumber runevent) comment) w1 of
                          (Some err, w2) \<Rightarrow> (Err err, w2)
                        | (None, w2) \<Rightarrow> (Ok (), w2))
                  else (Ok (), w1)))"

text \<open>\<open>CreateStatus\<close>, lines 174 to 198: the title and summary that are handed on.\<close>

definition derive_title_summary :: "PacOpts \<Rightarrow> StatusOpts \<Rightarrow> StatusOpts" where
  "derive_title_summary pacopts statusOpts0 =
     (let statusOpts1 =
            (if Conclusion statusOpts0 = ''success'' then
               statusOpts0\<lparr>Title := ''Success'',
                            Summary := ''has <b>successfully</b> validated your commit.''\<rparr>
             else if Conclusion statusOpts0 = ''failure'' then
               statusOpts0\<lparr>Title := ''Failed'', Summary := ''has <b>failed</b>.''\<rparr>
             else if Conclusion statusOpts0 = ''skipped'' then
               statusOpts0\<lparr>Title := ''Skipped'', Summary := ''is skipping this commit.''\<rparr>
             else if Conclusion statusOpts0 = ''neutral'' then
               statusOpts0\<lparr>Title := ''Unknown'',
                            Summary := ''doesn't know what happened with this commit.''\<rparr>
             else statusOpts0);
          statusOpts2 =
            (if Status statusOpts1 = ''in_progress'' then
               statusOpts1\<lparr>Title := ''CI has Started'', Summary := ''is running.''\<rparr>
             else statusOpts1);
          onPr = (if OriginalPipelineRunName statusOpts2 \<noteq> ''''
                  then ''/'' @ OriginalPipelineRunName statusOpts2 else '''')
      in statusOpts2\<lparr>Summary := ApplicationName pacopts @ onPr @ '' '' @ Summary statusOpts2\<rparr>)"

definition CreateStatus ::
  "'r Provider \<Rightarrow> Event \<Rightarrow> PacOpts \<Rightarrow> StatusOpts \<Rightarrow> 'r world \<Rightarrow> unit res \<times> 'r world" where
  "CreateStatus v runevent pacopts statusOpts w =
     (if Client v = None then (Err ''cannot set status on github no token or url set'', w)
      else
        let statusOpts' = derive_title_summary pacopts statusOpts
        in if InfoFromRepo runevent then createStatusCommit v runevent pacopts statusOpts' w
           else getOrUpdateCheckRunStatus v runevent pacopts statusOpts' w)"

subsection \<open>Two callers of \<open>getOrUpdateCheckRunStatus\<close> at once\<close>

text \<open>
  \<open>getOrUpdateCheckRunStatus\<close> takes no lock. It reaches what it shares with other
  callers at five places: \<open>Load\<close> (line 84), the remote listing (line 92), the remote
  creation (line 93), \<open>Store\<close> (line 99) and the remote update (line 123); in between it
  works on its own locals. A caller is about to act at one of these places, holding
  \<open>checkRunID\<close> once it is set, or has returned. One step does what the function does
  at that place and moves to the next one.
\<close>

datatype caller =
    AtLoad
  | AtList
  | AtCreate
  | AtStore "int64 option"
  | AtUpdate "int64 option"
  | Returned "unit res"

definition caller_step ::
  "'r Provider \<Rightarrow> Event \<Rightarrow> PacOpts \<Rightarrow> StatusOpts \<Rightarrow> caller \<Rightarrow> 'r world \<Rightarrow> caller \<times> 'r world" where
  "caller_step v runevent pacopts status at w =
     (case at of
        AtLoad \<Rightarrow>
          (case load_checkRunID status w of
             Err e \<Rightarrow> (Returned (Err e), w)
           | Panic m \<Rightarrow> (Returned (Panic m), w)
           | Ok (cached, ok) \<Rightarrow> if \<not> ok then (AtList, w) else (AtStore cached, w))
      | AtList \<Rightarrow>
          (case Client v of
             None \<Rightarrow> (Returned (Panic ''nil pointer dereference''), w)
           | Some c \<Rightarrow>
               (case getExistingCheckRunID c (ApplicationID v) runevent status w of
                  (Panic m, w1) \<Rightarrow> (Returned (Panic m), w1)
                | (Ok (Some checkRunID), w1) \<Rightarrow> (AtStore (Some checkRunID), w1)
                | (_, w1) \<Rightarrow> (AtCreate, w1)))
      | AtCreate \<Rightarrow>
          (case Client v of
             None \<Rightarrow> (Returned (Panic ''nil pointer dereference''), w)
           | Some c \<Rightarrow>
               (case createCheckRunStatus c runevent pacopts status w of
                  (Err e, w1) \<Rightarrow> (Returned (Err e), w1)
                | (Panic m, w1) \<Rightarrow> (Returned (Panic m), w1)
                | (Ok checkRunID, w1) \<Rightarrow> (AtStore checkRunID, w1)))
      | AtStore checkRunID \<Rightarrow> (AtUpdate checkRunID, store_checkRunID status checkRunID w)
      | AtUpdate checkRunID \<Rightarrow>
          (case send_update v runevent pacopts status checkRunID w of
             (r, w1) \<Rightarrow> (Returned r, w1))
      | Returned r \<Rightarrow> (Returned r, w))"

text \<open>A caller running on its own for a number of steps.\<close>

fun run_caller ::
  "nat \<Rightarrow> 'r Provider \<Rightarrow> Event \<Rightarrow> PacOpts \<Rightarrow> StatusOpts \<Rightarrow> caller \<Rightarrow> 'r world \<Rightarrow> caller \<times> 'r world" where
  "run_caller 0 v runevent pacopts status at w = (at, w)"
| "run_caller (Suc n) v runevent pacopts status at w =
     (case caller_step v runevent pacopts status at w of
        (at', w') \<Rightarrow> run_caller n v runevent pacopts status at' w')"

text \<open>
  Two callers on the same provider and event, with their own status options, and what
  they share. A schedule says whose turn each step is.
\<close>

record 'r callers =
  first :: caller
  second :: caller
  shared :: "'r world"

datatype turn = First | Second

fun run_schedule ::
  "'r Provider \<Rightarrow> Event \<Rightarrow> PacOpts \<Rightarrow> StatusOpts \<Rightarrow> StatusOpts \<Rightarrow> turn list \<Rightarrow> 'r callers
     \<Rightarrow> 'r callers" where
  "run_schedule v runevent pacopts status1 status2 [] st = st"
| "run_schedule v runevent pacopts status1 status2 (First # turns) st =
     (case caller_step v runevent pacopts status1 (first st) (shared st) of
        (at, w) \<Rightarrow>
          run_schedule v runevent pacopts status1 status2 turns (st\<lparr>first := at, shared := w\<rparr>))"
| "run_schedule v runevent pacopts status1 status2 (Second # turns) st =
     (case caller_step v runevent pacopts status2 (second st) (shared st) of
        (at, w) \<Rightarrow>
          run_schedule v runevent pacopts status1 status2 turns (st\<lparr>second := at, shared := w\<rparr>))"

subsection \<open>Reading the recorded calls\<close>

text \<open>The options of the check-run updates, the options of the check-run creations and the
  states of the commit statuses among a list of recorded calls, in order.\<close>

fun update_requests :: "api_call list \<Rightarrow> UpdateCheckRunOptions list" where
  "update_requests [] = []"
| "update_requests (UpdateCheckRun org repo cid opts # cs) = opts # update_requests cs"
| "update_requests (c # cs) = update_requests cs"

fun updated_ids :: "api_call list \<Rightarrow> int64 list" where
  "updated_ids [] = []"
| "updated_ids (UpdateCheckRun org repo cid opts # cs) = cid # updated_ids cs"
| "updated_ids (c # cs) = updated_ids cs"

fun create_requests :: "api_call list \<Rightarrow> CreateCheckRunOptions list" where
  "create_requests [] = []"
| "create_requests (CreateCheckRun org repo opts # cs) = opts # create_requests cs"
| "create_requests (c # cs) = create_requests cs"

fun transmitted_states :: "api_call list \<Rightarrow> string option list" where
  "transmitted_states [] = []"
| "transmitted_states (RepoCreateStatus org repo sha ghstatus # cs) =
     rs_State ghstatus # transmitted_states cs"
| "transmitted_states (c # cs) = transmitted_states cs"

subsection \<open>A stand-in for the remote side\<close>

text \<open>
  A small GitHub used to run the functions on concrete inputs: it keeps the check runs
  created so far, numbers them from \<open>next_id\<close>, lists all of them, and accepts every
  update, commit status and comment.
\<close>

record github =
  runs :: "CheckRun list"
  next_id :: int64

definition sample_Client :: "github Client" where
  "sample_Client =
     \<lparr>Checks_ListCheckRunsForRef =
        (\<lambda>org repo sha appID g.
           (Inr \<lparr>lcr_Total = Some (int (length (runs g))), lcr_CheckRuns = runs g\<rparr>, g)),
      Checks_CreateCheckRun =
        (\<lambda>org repo opts g.
           (Inr \<lparr>cr_ID = Some (next_id g), cr_ExternalID = ccr_ExternalID opts\<rparr>,
            g\<lparr>runs := runs g @ [\<lparr>cr_ID = Some (next_id g), cr_ExternalID = ccr_ExternalID opts\<rparr>],
              next_id := next_id g + 1\<rparr>)),
      Checks_UpdateCheckRun = (\<lambda>org repo cid opts g. (None, g)),
      Repositories_CreateStatus = (\<lambda>org repo sha ghstatus g. (None, g)),
      Issues_CreateComment = (\<lambda>org repo number comment g. (None, g))\<rparr>"

definition sample_Provider :: "github Provider" where
  "sample_Provider = \<lparr>Client = Some sample_Client, ApplicationID = Some 7\<rparr>"

definition sample_world :: "github world" where
  "sample_world =
     \<lparr>remote = \<lparr>runs = [], next_id = 100\<rparr>, CheckRunIDS = Map.empty, calls = [],
      clock = (\<lambda>n. 1700000000000000000 + int n), ticks = 0\<rparr>"

definition sample_Event :: Event where
  "sample_Event =
     \<lparr>Organization = ''org'', Repository = ''repo'', SHA = ''abc123'',
      EventType = ''pull_request'', PullRequestNumber = 4, InfoFromRepo = False\<rparr>"

definition sample_PacOpts :: PacOpts where
  "sample_PacOpts = \<lparr>ApplicationName = ''PAC'', LogURL = ''https://log''\<rparr>"

definition sample_StatusOpts :: StatusOpts where
  "sample_StatusOpts =
     \<lparr>PipelineRunName = ''run-1'', OriginalPipelineRunName = ''pr'', Status = ''completed'',
      Conclusion = ''success'', Title = ''caller title'', Summary = ''caller summary'',
      Text = ''text'', DetailsURL = ''''\<rparr>"

section \<open>The GitHub App: JWT and installation lookup (\<open>app/token.go\<close>)\<close>

subsection \<open>Data\<close>

text \<open>
  \<open>jwt.NumericDate\<close> holds a \<open>time.Time\<close>. \<open>jwt.NewNumericDate(t)\<close> is
  \<open>t.Truncate(jwt.TimePrecision)\<close> with the library's default precision of one second,
  which rounds the instant down to a whole second. The claim that is encoded in the token
  is the date's Unix time in seconds.
\<close>

type_synonym NumericDate = time_Time

definition time_Second :: int where
  "time_Second = 1000000000"

definition time_Minute :: int where
  "time_Minute = 60 * time_Second"

definition NewNumericDate :: "time_Time \<Rightarrow> NumericDate" where
  "NewNumericDate t = (t div time_Second) * time_Second"

definition Unix :: "time_Time \<Rightarrow> int" where
  "Unix t = t div time_Second"

text \<open>\<open>t.Add(d)\<close> for a duration \<open>d\<close> in nanoseconds.\<close>

definition time_Add :: "time_Time \<Rightarrow> int \<Rightarrow> time_Time" where
  "time_Add t d = t + d"

record RegisteredClaims =
  rc_Issuer :: string
  rc_Subject :: string
  rc_Audience :: "string list"
  rc_ExpiresAt :: "NumericDate option"
  rc_NotBefore :: "NumericDate option"
  rc_IssuedAt :: "NumericDate option"
  rc_ID :: string

text \<open>\<open>JWTClaim\<close>: the field \<open>Issuer int64\<close> (JSON name \<open>iss\<close>) and the embedded
  \<open>jwt.RegisteredClaims\<close>.\<close>

record JWTClaim =
  Issuer :: int64
  Registered :: RegisteredClaims

text \<open>The zero value of \<open>jwt.RegisteredClaims\<close>.\<close>

definition empty_RegisteredClaims :: RegisteredClaims where
  "empty_RegisteredClaims =
     \<lparr>rc_Issuer = '''', rc_Subject = '''', rc_Audience = [], rc_ExpiresAt = None,
      rc_NotBefore = None, rc_IssuedAt = None, rc_ID = ''''\<rparr>"

text \<open>A \<open>jwt.Token\<close> before signing: the signing method and the claims.\<close>

record Token =
  Method :: string
  Claims :: JWTClaim

definition SigningMethodRS256 :: string where
  "SigningMethodRS256 = ''RS256''"

definition NewWithClaims :: "string \<Rightarrow> JWTClaim \<Rightarrow> Token" where
  "NewWithClaims method claims = \<lparr>Method = method, Claims = claims\<rparr>"

record Installation =
  inst_ID :: "int64 option"

record Request =
  req_Method :: string
  req_URL :: string
  req_Header :: "(string \<times> string list) list"

record Response =
  StatusCode :: int
  Body :: "string + string"

text \<open>
  The collaborators of \<open>token.go\<close>, as parameters. \<open>'k\<close> is a parsed RSA key, \<open>'g\<close> the
  state of the provider client \<open>ip.ghClient\<close> (it holds the token the client works with).
  \<^item> \<open>GetAppIDAndPrivateKey namespace\<close>: the application ID and the PEM key from the
    cluster secret, or an error;
  \<^item> \<open>ParseRSAPrivateKeyFromPEM\<close> and \<open>SignedString\<close>: the JWT library;
  \<^item> \<open>url_Parse\<close>: \<open>url.Parse\<close> followed by \<open>String()\<close>; \<open>NewRequest method url\<close>:
    \<open>http.NewRequestWithContext\<close> with a nil body; \<open>HTTP_Do\<close>: \<open>run.Clients.HTTP.Do\<close>;
    the \<open>Body\<close> of a response is what \<open>io.ReadAll\<close> yields for it;
  \<^item> \<open>json_Unmarshal\<close>: decoding the body into \<open>[]gt.Installation\<close>;
  \<^item> \<open>GetAppToken host id namespace\<close>: the token exchange of the provider client for an
    installation, which also changes the client;
  \<^item> \<open>ListRepos\<close>: \<open>github.ListRepos\<close>, the URLs of the repositories the provider client
    can access, as the pair of the slice (\<open>None\<close> is a nil slice) and the error;
  \<^item> \<open>InstallationURL\<close>: the constant \<open>keys.InstallationURL\<close>.
\<close>

record ('k, 'g) collaborators =
  GetAppIDAndPrivateKey :: "string \<Rightarrow> string + (int64 \<times> string)"
  ParseRSAPrivateKeyFromPEM :: "string \<Rightarrow> string + 'k"
  SignedString :: "Token \<Rightarrow> 'k \<Rightarrow> string + string"
  url_Parse :: "string \<Rightarrow> string + string"
  NewRequest :: "string \<Rightarrow> string \<Rightarrow> string + Request"
  HTTP_Do :: "Request \<Rightarrow> string + Response"
  json_Unmarshal :: "string \<Rightarrow> string + Installation list"
  GetAppToken :: "string \<Rightarrow> int64 \<Rightarrow> string \<Rightarrow> 'g \<Rightarrow> (string + string) \<times> 'g"
  ListRepos :: "'g \<Rightarrow> string list option \<times> string option"
  InstallationURL :: string

text \<open>
  The fields of \<open>Install\<close> that a call only reads: the value of the request header
  \<open>X-GitHub-Enterprise-Host\<close>, \<open>ip.repo.Spec.URL\<close>, \<open>ip.ghClient.APIURL\<close> (a pointer)
  and \<open>ip.namespace\<close>.
\<close>

record Install =
  enterprise_host_header :: string
  repo_Spec_URL :: string
  APIURL :: "string option"
  namespace :: string

text \<open>The calls to the two collaborators that the installation scan issues, with the
  reply of a token exchange.\<close>

datatype app_call =
    TokenExchange string int64 string "string + string"
  | RepoListFetch

text \<open>
  What a call of \<open>token.go\<close> changes or observes: the provider client, the cached
  \<open>ip.repoList\<close> (\<open>None\<close> is nil), the collaborator calls issued so far, and the wall
  clock with the number of readings taken.
\<close>

record 'g app_world =
  ghClient :: 'g
  repoList :: "string list option"
  app_calls :: "app_call list"
  app_clock :: "nat \<Rightarrow> time_Time"
  app_ticks :: nat

definition app_time_Now :: "'g app_world \<Rightarrow> time_Time \<times> 'g app_world" where
  "app_time_Now w = (app_clock w (app_ticks w), w\<lparr>app_ticks := Suc (app_ticks w)\<rparr>)"

subsection \<open>Functions\<close>

text \<open>
  \<open>GenerateJWT\<close>. The clock is read twice: once for \<open>expirationTime\<close> and once, later, for
  \<open>IssuedAt\<close>. The result carries the token that was signed beside the signed string.
\<close>

definition GenerateJWT ::
  "('k, 'g) collaborators \<Rightarrow> Install \<Rightarrow> 'g app_world \<Rightarrow> (string \<times> Token) res \<times> 'g app_world" where
  "GenerateJWT env ip w =
     (case GetAppIDAndPrivateKey env (namespace ip) of
        Inl err \<Rightarrow> (Err err, w)
      | Inr (applicationID, privateKey) \<Rightarrow>
          (case app_time_Now w of (t1, w1) \<Rightarrow>
             let expirationTime = time_Add t1 (5 * time_Minute) in
             (case app_time_Now w1 of (t2, w2) \<Rightarrow>
                let claims = \<lparr>Issuer = applicationID,
                              Registered = empty_RegisteredClaims
                                \<lparr>rc_ExpiresAt := Some (NewNumericDate expirationTime),
                                 rc_IssuedAt := Some (NewNumericDate t2)\<rparr>\<rparr>;
                    token = NewWithClaims SigningMethodRS256 claims
                in case ParseRSAPrivateKeyFromPEM env privateKey of
                     Inl err \<Rightarrow> (Err (''failed to parse private key: '' @ err), w2)
                   | Inr parsedPK \<Rightarrow>
                       (case SignedString env token parsedPK of
                          Inl err \<Rightarrow> (Err (''failed to sign private key: '' @ err), w2)
                        | Inr tokenString \<Rightarrow> (Ok (tokenString, token), w2)))))"

text \<open>The claims as the signed token carries them: \<open>iss\<close>, \<open>exp\<close> and \<open>iat\<close> in Unix
  seconds, and whether a subject or an audience is present.\<close>

definition claim_iss :: "Token \<Rightarrow> int64" where
  "claim_iss t = Issuer (Claims t)"

definition claim_exp :: "Token \<Rightarrow> int option" where
  "claim_exp t = map_option Unix (rc_ExpiresAt (Registered (Claims t)))"

definition claim_iat :: "Token \<Rightarrow> int option" where
  "claim_iat t = map_option Unix (rc_IssuedAt (Registered (Claims t)))"

definition has_subject_or_audience :: "Token \<Rightarrow> bool" where
  "has_subject_or_audience t =
     (rc_Subject (Registered (Claims t)) \<noteq> '''' \<or> rc_Audience (Registered (Claims t)) \<noteq> [])"

text \<open>The loop of \<open>listRepos\<close> over \<open>ip.repoList\<close>.\<close>

fun url_in_repoList :: "string list \<Rightarrow> string \<Rightarrow> bool" where
  "url_in_repoList [] url = False"
| "url_in_repoList (r # rest) url = (if r = url then True else url_in_repoList rest url)"

text \<open>
  \<open>listRepos\<close>: the list is fetched only while \<open>ip.repoList\<close> is nil, and the slice that
  \<open>github.ListRepos\<close> returns is assigned to \<open>ip.repoList\<close> also when it returns an error.
\<close>

definition listRepos ::
  "('k, 'g) collaborators \<Rightarrow> Install \<Rightarrow> 'g app_world \<Rightarrow> bool res \<times> 'g app_world" where
  "listRepos env ip w =
     (case (if repoList w = None
            then (case ListRepos env (ghClient w) of
                    (lst, err) \<Rightarrow> (err, w\<lparr>repoList := lst, app_calls := app_calls w @ [RepoListFetch]\<rparr>))
            else (None, w)) of
        (Some err, w1) \<Rightarrow> (Err err, w1)
      | (None, w1) \<Rightarrow>
          (Ok (url_in_repoList (case repoList w1 of None \<Rightarrow> [] | Some l \<Rightarrow> l) (repo_Spec_URL ip)),
           w1))"

text \<open>Line 88: the token exchange through the provider client.\<close>

definition exchange_token ::
  "('k, 'g) collaborators \<Rightarrow> Install \<Rightarrow> string \<Rightarrow> int64 \<Rightarrow> 'g app_world
     \<Rightarrow> (string + string) \<times> 'g app_world" where
  "exchange_token env ip enterpriseHost installationID w =
     (case GetAppToken env enterpriseHost installationID (namespace ip) (ghClient w) of
        (reply, g') \<Rightarrow>
          (reply,
           w\<lparr>ghClient := g',
             app_calls := app_calls w
               @ [TokenExchange enterpriseHost installationID (namespace ip) reply]\<rparr>))"

text \<open>
  How the loop of lines 83 to 101 ends when it returns no error: by \<open>break\<close> at a
  matching installation, with \<open>token\<close> and \<open>installationID\<close> as they are then, or by
  running out of installations, with \<open>token\<close> as it is then.
\<close>

datatype loop_exit = Matched string int64 | Exhausted string

fun scan_installations ::
  "('k, 'g) collaborators \<Rightarrow> Install \<Rightarrow> string \<Rightarrow> Installation list \<Rightarrow> string \<Rightarrow> 'g app_world
     \<Rightarrow> loop_exit res \<times> 'g app_world" where
  "scan_installations env ip enterpriseHost [] token w = (Ok (Exhausted token), w)"
| "scan_installations env ip enterpriseHost (inst # rest) token w =
     (case inst_ID inst of
        None \<Rightarrow> (Err ''installation ID is nil'', w)
      | Some iid \<Rightarrow>
          (case (if iid \<noteq> 0 then exchange_token env ip enterpriseHost iid w
                 else (Inr token, w)) of
             (Inl err, w1) \<Rightarrow> (Err err, w1)
           | (Inr token1, w1) \<Rightarrow>
               (case listRepos env ip w1 of
                  (Err err, w2) \<Rightarrow> (Err err, w2)
                | (Panic m, w2) \<Rightarrow> (Panic m, w2)
                | (Ok exist, w2) \<Rightarrow>
                    if exist then (Ok (Matched token1 iid), w2)
                    else scan_installations env ip enterpriseHost rest token1 w2)))"

text \<open>\<open>GetReponse\<close>.\<close>

definition GetReponse ::
  "('k, 'g) collaborators \<Rightarrow> string \<Rightarrow> string \<Rightarrow> string \<Rightarrow> Response res" where
  "GetReponse env method urlData jwtToken =
     (case url_Parse env urlData of
        Inl err \<Rightarrow> Err err
      | Inr rawurl \<Rightarrow>
          (case NewRequest env method rawurl of
             Inl err \<Rightarrow> Err err
           | Inr newreq \<Rightarrow>
               (case HTTP_Do env
                       (newreq\<lparr>req_Header :=
                          [(''Accept'', [''application/vnd.github+json'']),
                           (''Authorization'', [''Bearer '' @ jwtToken])]\<rparr>) of
                  Inl err \<Rightarrow> Err err
                | Inr res \<Rightarrow> Ok res)))"

text \<open>The verb \<open>%d\<close> of \<open>fmt\<close> for an \<open>int\<close>.\<close>

fun decimal :: "nat \<Rightarrow> string" where
  "decimal n =
     (if n < 10 then [''0123456789'' ! n]
      else decimal (n div 10) @ [''0123456789'' ! (n mod 10)])"

declare decimal.simps [simp del]

definition format_int :: "int \<Rightarrow> string" where
  "format_int i = (if i < 0 then ''-'' @ decimal (nat (- i)) else decimal (nat i))"

text \<open>
  \<open>GetAndUpdateInstallationID\<close>, lines 48 to 78: everything before the loop. The result
  is \<open>enterpriseHost\<close> and the decoded \<open>installationData\<close>.
\<close>

definition fetch_installations ::
  "('k, 'g) collaborators \<Rightarrow> Install \<Rightarrow> 'g app_world
     \<Rightarrow> (string \<times> Installation list) res \<times> 'g app_world" where
  "fetch_installations env ip w =
     (case GenerateJWT env ip w of
        (Err err, w1) \<Rightarrow> (Err err, w1)
      | (Panic m, w1) \<Rightarrow> (Panic m, w1)
      | (Ok (jwtToken, jwt), w1) \<Rightarrow>
          (case APIURL ip of
             None \<Rightarrow> (Panic ''nil pointer dereference'', w1)
           | Some api \<Rightarrow>
               let enterpriseHost = enterprise_host_header ip;
                   installationURL =
                     (if enterpriseHost \<noteq> ''''
                      then ''https://'' @ enterpriseHost @ ''/api/v3'' @ InstallationURL env
                      else api @ InstallationURL env)
               in (case GetReponse env ''GET'' installationURL jwtToken of
                    Err err \<Rightarrow> (Err err, w1)
                  | Panic m \<Rightarrow> (Panic m, w1)
                  | Ok res \<Rightarrow>
                      if StatusCode res \<ge> 300
                      then (Err (''Non-OK HTTP status while getting installation URL: ''
                                 @ installationURL @ '' : '' @ format_int (StatusCode res)), w1)
                      else
                        (case Body res of
                           Inl err \<Rightarrow> (Err err, w1)
                         | Inr data \<Rightarrow>
                             (case json_Unmarshal env data of
                                Inl err \<Rightarrow> (Err err, w1)
                              | Inr installationData \<Rightarrow>
                                  (Ok (enterpriseHost, installationData), w1))))))"

text \<open>
  \<open>GetAndUpdateInstallationID\<close>. On success the result is the triple of
  \<open>enterpriseHost\<close>, \<open>token\<close> and \<open>installationID\<close>; every error return carries
  \<open>"", "", 0\<close> beside the error. \<open>token\<close> starts as the empty string and
  \<open>installationID\<close> as 0.
\<close>

definition GetAndUpdateInstallationID ::
  "('k, 'g) collaborators \<Rightarrow> Install \<Rightarrow> 'g app_world
     \<Rightarrow> (string \<times> string \<times> int64) res \<times> 'g app_world" where
  "GetAndUpdateInstallationID env ip w =
     (case fetch_installations env ip w of
        (Err err, w1) \<Rightarrow> (Err err, w1)
      | (Panic m, w1) \<Rightarrow> (Panic m, w1)
      | (Ok (enterpriseHost, installationData), w1) \<Rightarrow>
          (case scan_installations env ip enterpriseHost installationData '''' w1 of
             (Err err, w2) \<Rightarrow> (Err err, w2)
           | (Panic m, w2) \<Rightarrow> (Panic m, w2)
           | (Ok (Matched token iid), w2) \<Rightarrow> (Ok (enterpriseHost, token, iid), w2)
           | (Ok (Exhausted token), w2) \<Rightarrow> (Ok (enterpriseHost, token, 0), w2)))"

subsection \<open>Reading the recorded collaborator calls\<close>



subsection \<open>Stand-ins for the collaborators\<close>

text \<open>
  Collaborators used to run the functions on concrete inputs. The provider client's
  state is the installation it last exchanged a token for. The token for installation
  \<open>n\<close> is \<open>token-n\<close>; \<open>repos\<close> gives the repositories each installation can access, and
  \<open>ListRepos\<close> answers for the installation the client is authenticated as. The body
  \<open>body\<close> decodes to \<open>insts\<close>.
\<close>

definition sample_collaborators ::
  "(int64 \<Rightarrow> string list) \<Rightarrow> Installation list \<Rightarrow> (string, int64 option) collaborators" where
  "sample_collaborators repos insts =
     \<lparr>GetAppIDAndPrivateKey = (\<lambda>ns. Inr (12345, ''PEM'')),
      ParseRSAPrivateKeyFromPEM = (\<lambda>pem. if pem = ''PEM'' then Inr ''key'' else Inl ''invalid key''),
      SignedString = (\<lambda>t k. Inr ''signed''),
      url_Parse = (\<lambda>u. Inr u),
      NewRequest = (\<lambda>m u. Inr \<lparr>req_Method = m, req_URL = u, req_Header = []\<rparr>),
      HTTP_Do = (\<lambda>r. Inr \<lparr>StatusCode = 200, Body = Inr ''body''\<rparr>),
      json_Unmarshal = (\<lambda>d. if d = ''body'' then Inr insts else Inl ''unexpected end of JSON input''),
      GetAppToken = (\<lambda>host iid ns g. (Inr (''token-'' @ decimal (unat iid)), Some iid)),
      ListRepos = (\<lambda>g. (Some (case g of None \<Rightarrow> [] | Some iid \<Rightarrow> repos iid), None)),
      InstallationURL = ''/app/installations''\<rparr>"

definition sample_Install :: Install where
  "sample_Install =
     \<lparr>enterprise_host_header = '''', repo_Spec_URL = ''https://github.com/org/target'',
      APIURL = Some ''https://api.github.com'', namespace = ''pac''\<rparr>"

definition sample_app_world :: "(nat \<Rightarrow> time_Time) \<Rightarrow> int64 option app_world" where
  "sample_app_world clk =
     \<lparr>ghClient = None, repoList = None, app_calls = [], app_clock = clk, app_ticks = 0\<rparr>"

text \<open>The token of a call of \<open>GenerateJWT\<close> that returned one.\<close>

definition jwt_of :: "(string \<times> Token) res \<times> 'g app_world \<Rightarrow> Token option" where
  "jwt_of r = (case fst r of Ok (tokenString, token) \<Rightarrow> Some token | Err e \<Rightarrow> None | Panic m \<Rightarrow> None)"

section \<open>Properties of \<open>CustomTime.UnmarshalJSON\<close>\<close>

lemma go_slice_inner:
  "go_slice (c1 # s @ [c2]) 1 (int (length (c1 # s @ [c2])) - 1) = Ok s"
  by (simp add: go_slice_def)

lemma UnmarshalJSON_inner:
  "UnmarshalJSON p ct (c1 # s @ [c2]) =
     (if s = ''0001-01-01T00:00:00'' \<or> s = '''' then Ok (ct\<lparr>Time := zero_Time\<rparr>)
      else (case p RFC3339 s of Inl err \<Rightarrow> Err err | Inr t \<Rightarrow> Ok (ct\<lparr>Time := t\<rparr>)))"
  unfolding UnmarshalJSON_def Let_def go_slice_inner by simp



text \<open>
  C9. The JSON string \<open>"0001-01-01T00:00:00"\<close> and the empty JSON string decode to the
  zero time with a nil error, whatever the receiver held. For any other JSON string the
  result is that of strict RFC 3339 parsing of its content: a value the parser rejects
  (such as \<open>not-a-date\<close>) returns the parse error, and a value it accepts decodes to the
  parsed time with a nil error.
\<close>

theorem C9_UnmarshalJSON_decodes:
  "UnmarshalJSON p ct (json_quoted ''0001-01-01T00:00:00'') = Ok (ct\<lparr>Time := zero_Time\<rparr>)
   \<and> UnmarshalJSON p ct (json_quoted '''') = Ok (ct\<lparr>Time := zero_Time\<rparr>)
   \<and> (s \<noteq> ''0001-01-01T00:00:00'' \<and> s \<noteq> '''' \<and> p RFC3339 s = Inl e
        \<longrightarrow> UnmarshalJSON p ct (json_quoted s) = Err e)
   \<and> (s \<noteq> ''0001-01-01T00:00:00'' \<and> s \<noteq> '''' \<and> p RFC3339 s = Inr t
        \<longrightarrow> UnmarshalJSON p ct (json_quoted s) = Ok (ct\<lparr>Time := t\<rparr>))"
  unfolding json_quoted_def UnmarshalJSON_inner by simp

theorem C9_UnmarshalJSON_decodes_witness:
  "UnmarshalJSON sample_Parse \<lparr>Time = 5\<rparr> (json_quoted ''0001-01-01T00:00:00'')
     = Ok \<lparr>Time = zero_Time\<rparr>
   \<and> UnmarshalJSON sample_Parse \<lparr>Time = 5\<rparr> (json_quoted '''') = Ok \<lparr>Time = zero_Time\<rparr>
   \<and> UnmarshalJSON sample_Parse \<lparr>Time = 5\<rparr> (json_quoted ''not-a-date'')
     = Err ''parsing time: cannot parse''
   \<and> UnmarshalJSON sample_Parse \<lparr>Time = 5\<rparr> (json_quoted ''2024-05-06T07:08:09Z'')
     = Ok \<lparr>Time = 1714979289000000000\<rparr>"
  using C9_UnmarshalJSON_decodes
          [of sample_Parse "\<lparr>Time = 5\<rparr>" "''not-a-date''" "''parsing time: cannot parse''"]
        C9_UnmarshalJSON_decodes
          [of sample_Parse "\<lparr>Time = 5\<rparr>" "''2024-05-06T07:08:09Z''" _ "1714979289000000000"]
  by (simp add: sample_Parse_def RFC3339_def)



section \<open>Properties of status reporting\<close>

lemma update_requests_append:
  "update_requests (xs @ ys) = update_requests xs @ update_requests ys"
  by (induction xs rule: update_requests.induct) simp_all

lemma transmitted_states_append:
  "transmitted_states (xs @ ys) = transmitted_states xs @ transmitted_states ys"
  by (induction xs rule: transmitted_states.induct) simp_all

lemma calls_getExistingCheckRunID:
  "calls (snd (getExistingCheckRunID c appID runevent status w)) =
     calls w @ [ListCheckRunsForRef (Organization runevent) (Repository runevent) (SHA runevent) appID]"
  by (simp add: getExistingCheckRunID_def remote_call_def split: prod.split sum.split option.split)

lemma calls_createCheckRunStatus:
  "\<exists>opts. calls (snd (createCheckRunStatus c runevent pacopts status w)) =
     calls w @ [CreateCheckRun (Organization runevent) (Repository runevent) opts]"
  by (auto simp: createCheckRunStatus_def remote_call_def time_Now_def Let_def
      split: prod.split sum.split)

lemma update_requests_find_or_create:
  "update_requests (calls (snd (find_or_create v runevent pacopts status w))) =
     update_requests (calls w)"
proof (cases "Client v")
  case None
  then show ?thesis by (simp add: find_or_create_def)
next
  case (Some c)
  obtain r w1 where g: "getExistingCheckRunID c (ApplicationID v) runevent status w = (r, w1)"
    by (cases "getExistingCheckRunID c (ApplicationID v) runevent status w")
  have c1: "update_requests (calls w1) = update_requests (calls w)"
    using calls_getExistingCheckRunID [of c "ApplicationID v" runevent status w] g
    by (simp add: update_requests_append)
  obtain opts where
    "calls (snd (createCheckRunStatus c runevent pacopts status w1)) =
       calls w1 @ [CreateCheckRun (Organization runevent) (Repository runevent) opts]"
    using calls_createCheckRunStatus by blast
  then have c2: "update_requests (calls (snd (createCheckRunStatus c runevent pacopts status w1))) =
      update_requests (calls w)"
    using c1 by (simp add: update_requests_append)
  show ?thesis
    using Some g c1 c2 by (simp add: find_or_create_def split: res.split option.split)
qed

lemma calls_update_options: "calls (snd (update_options status pacopts w)) = calls w"
  by (simp add: update_options_def time_Now_def Let_def)

lemma update_requests_send_update:
  "update_requests (calls (snd (send_update v runevent pacopts status checkRunID w))) =
     update_requests (calls w) @
       (case Client v of
          None \<Rightarrow> []
        | Some c \<Rightarrow>
            (case checkRunID of None \<Rightarrow> [] | Some cid \<Rightarrow> [fst (update_options status pacopts w)]))"
proof -
  obtain opts w1 where u: "update_options status pacopts w = (opts, w1)"
    by (cases "update_options status pacopts w")
  then have "calls w1 = calls w"
    using calls_update_options [of status pacopts w] by simp
  then show ?thesis
    using u by (simp add: send_update_def remote_call_def update_requests_append
        split: prod.split option.split)
qed

lemma calls_store_checkRunID: "calls (store_checkRunID status i w) = calls w"
  by (simp add: store_checkRunID_def)

lemma update_options_linked:
  "(ucr_CompletedAt (fst (update_options status pacopts w)) \<noteq> None) =
      (Conclusion status \<noteq> '''' \<and> Conclusion status \<noteq> ''pending'')
   \<and> (ucr_Conclusion (fst (update_options status pacopts w)) \<noteq> None) =
      (Conclusion status \<noteq> '''' \<and> Conclusion status \<noteq> ''pending'')"
  by (simp add: update_options_def time_Now_def Let_def)

lemma update_requests_getOrUpdate:
  "\<exists>new. update_requests (calls (snd (getOrUpdateCheckRunStatus v runevent pacopts status w))) =
           update_requests (calls w) @ new
         \<and> (\<forall>opts \<in> set new.
               (ucr_CompletedAt opts \<noteq> None) =
                 (Conclusion status \<noteq> '''' \<and> Conclusion status \<noteq> ''pending'')
             \<and> (ucr_Conclusion opts \<noteq> None) =
                 (Conclusion status \<noteq> '''' \<and> Conclusion status \<noteq> ''pending''))"
proof (cases "load_checkRunID status w")
  case (Ok p)
  obtain cached ok where p: "p = (cached, ok)" by (cases p)
  define step where
    "step = (if \<not> ok then find_or_create v runevent pacopts status w else (Ok cached, w))"
  obtain r w1 where s: "step = (r, w1)" by (cases step)
  have k: "update_requests (calls w1) = update_requests (calls w)"
    using s update_requests_find_or_create [of v runevent pacopts status w]
    by (auto simp: step_def split: if_splits)
  show ?thesis
  proof (cases r)
    case (Ok checkRunID)
    define sent where
      "sent = (case Client v of
                 None \<Rightarrow> []
               | Some c \<Rightarrow>
                   (case checkRunID of
                      None \<Rightarrow> []
                    | Some cid \<Rightarrow>
                        [fst (update_options status pacopts (store_checkRunID status checkRunID w1))]))"
    have "getOrUpdateCheckRunStatus v runevent pacopts status w =
            send_update v runevent pacopts status checkRunID (store_checkRunID status checkRunID w1)"
      using \<open>load_checkRunID status w = Ok p\<close> p s Ok
      by (simp add: getOrUpdateCheckRunStatus_def step_def)
    then have a: "update_requests (calls (snd (getOrUpdateCheckRunStatus v runevent pacopts status w))) =
        update_requests (calls w) @ sent"
      using k by (simp add: update_requests_send_update calls_store_checkRunID sent_def)
    have "\<forall>opts \<in> set sent.
               (ucr_CompletedAt opts \<noteq> None) =
                 (Conclusion status \<noteq> '''' \<and> Conclusion status \<noteq> ''pending'')
             \<and> (ucr_Conclusion opts \<noteq> None) =
                 (Conclusion status \<noteq> '''' \<and> Conclusion status \<noteq> ''pending'')"
      using update_options_linked [of status pacopts "store_checkRunID status checkRunID w1"]
      by (simp add: sent_def split: option.split)
    with a show ?thesis by blast
  next
    case (Err e)
    then have "snd (getOrUpdateCheckRunStatus v runevent pacopts status w) = w1"
      using \<open>load_checkRunID status w = Ok p\<close> p s
      by (simp add: getOrUpdateCheckRunStatus_def step_def)
    then show ?thesis using k by simp
  next
    case (Panic m)
    then have "snd (getOrUpdateCheckRunStatus v runevent pacopts status w) = w1"
      using \<open>load_checkRunID status w = Ok p\<close> p s
      by (simp add: getOrUpdateCheckRunStatus_def step_def)
    then show ?thesis using k by simp
  qed
next
  case (Err e)
  then show ?thesis by (simp add: getOrUpdateCheckRunStatus_def)
next
  case (Panic m)
  then show ?thesis by (simp add: getOrUpdateCheckRunStatus_def)
qed

text \<open>
  C3. In the update that \<open>getOrUpdateCheckRunStatus\<close> builds, the completion timestamp is
  set exactly when the conclusion field is set, and both exactly when
  \<open>status.Conclusion\<close> is neither empty nor \<open>pending\<close>. This holds for the options as
  built and for every check-run update the call issues.
\<close>

theorem C3_completed_at_iff_conclusion:
  "(ucr_CompletedAt (fst (update_options status pacopts w)) \<noteq> None) =
      (ucr_Conclusion (fst (update_options status pacopts w)) \<noteq> None)
   \<and> (ucr_CompletedAt (fst (update_options status pacopts w)) \<noteq> None) =
      (Conclusion status \<noteq> '''' \<and> Conclusion status \<noteq> ''pending'')
   \<and> (\<exists>new. update_requests (calls (snd (getOrUpdateCheckRunStatus v runevent pacopts status w))) =
              update_requests (calls w) @ new
         \<and> (\<forall>opts \<in> set new.
               (ucr_CompletedAt opts \<noteq> None) = (ucr_Conclusion opts \<noteq> None)
             \<and> (ucr_CompletedAt opts \<noteq> None) =
                 (Conclusion status \<noteq> '''' \<and> Conclusion status \<noteq> ''pending'')))"
proof -
  obtain new where
    n: "update_requests (calls (snd (getOrUpdateCheckRunStatus v runevent pacopts status w))) =
          update_requests (calls w) @ new"
    and a: "\<forall>opts \<in> set new.
               (ucr_CompletedAt opts \<noteq> None) =
                 (Conclusion status \<noteq> '''' \<and> Conclusion status \<noteq> ''pending'')
             \<and> (ucr_Conclusion opts \<noteq> None) =
                 (Conclusion status \<noteq> '''' \<and> Conclusion status \<noteq> ''pending'')"
    using update_requests_getOrUpdate [of v runevent pacopts status w] by blast
  from a have "\<forall>opts \<in> set new.
               (ucr_CompletedAt opts \<noteq> None) = (ucr_Conclusion opts \<noteq> None)
             \<and> (ucr_CompletedAt opts \<noteq> None) =
                 (Conclusion status \<noteq> '''' \<and> Conclusion status \<noteq> ''pending'')"
    by blast
  with n show ?thesis
    using update_options_linked [of status pacopts w] by blast
qed

theorem C3_completed_at_iff_conclusion_witness:
  "update_requests (calls (snd (getOrUpdateCheckRunStatus sample_Provider sample_Event
       sample_PacOpts sample_StatusOpts sample_world))) \<noteq> []
   \<and> (\<exists>new. update_requests (calls (snd (getOrUpdateCheckRunStatus sample_Provider sample_Event
                 sample_PacOpts sample_StatusOpts sample_world))) = new
         \<and> list_all (\<lambda>opts. ucr_CompletedAt opts \<noteq> None \<and> ucr_Conclusion opts \<noteq> None) new)"
proof -
  have c: "Conclusion sample_StatusOpts \<noteq> '''' \<and> Conclusion sample_StatusOpts \<noteq> ''pending''"
    by (simp add: sample_StatusOpts_def)
  have e: "calls sample_world = []"
    by (simp add: sample_world_def)
  have ne: "update_requests (calls (snd (getOrUpdateCheckRunStatus sample_Provider sample_Event
       sample_PacOpts sample_StatusOpts sample_world))) \<noteq> []"
    by (simp add: sample_Provider_def sample_Event_def sample_PacOpts_def sample_StatusOpts_def
        sample_world_def getOrUpdateCheckRunStatus_def load_checkRunID_def find_or_create_def
        getExistingCheckRunID_def remote_call_def sample_Client_def createCheckRunStatus_def
        time_Now_def store_checkRunID_def send_update_def update_options_def getCheckName_def)
  show ?thesis
    using C3_completed_at_iff_conclusion
            [of sample_StatusOpts sample_PacOpts sample_world sample_Provider sample_Event]
          c e ne
    by (auto simp: list_all_iff)
qed

lemma remote_call_calls: "remote_call c f w = (r, w') \<Longrightarrow> calls w' = calls w @ [c]"
  by (auto simp: remote_call_def split: prod.splits)

lemma transmitted_createStatusCommit:
  assumes "Client v = Some c"
  shows "transmitted_states (calls (snd (createStatusCommit v runevent pacopts status w))) =
     transmitted_states (calls w) @
       [Some (if Status status = ''in_progress'' then ''pending''
              else if Conclusion status = ''skipped'' \<or> Conclusion status = ''neutral''
                   then ''success''
              else Conclusion status)]"
proof -
  have "transmitted_states (calls (snd (createStatusCommit v runevent pacopts status w))) =
     transmitted_states (calls w) @ [Some (Conclusion (commit_conclusion status))]"
    using assms
    by (auto simp: createStatusCommit_def time_Now_def Let_def transmitted_states_append
        split: prod.split option.split dest!: remote_call_calls)
  then show ?thesis
    by (simp add: commit_conclusion_def Let_def)
qed

text \<open>
  C7. On the commit-status path every call of \<open>createStatusCommit\<close> (with a client)
  transmits exactly one commit status. Its state is \<open>pending\<close> whenever the status is
  \<open>in_progress\<close>, whatever conclusion the caller passed (also \<open>success\<close>, \<open>skipped\<close> or
  \<open>neutral\<close>); otherwise the conclusions \<open>skipped\<close> and \<open>neutral\<close> are transmitted as
  \<open>success\<close>, and every other conclusion as it is.
\<close>

theorem C7_commit_status_state:
  assumes "Client v = Some c"
  shows "\<exists>state.
      transmitted_states (calls (snd (createStatusCommit v runevent pacopts status w))) =
        transmitted_states (calls w) @ [Some state]
    \<and> (Status status = ''in_progress'' \<longrightarrow> state = ''pending'')
    \<and> (Status status \<noteq> ''in_progress'' \<and> Conclusion status = ''skipped'' \<longrightarrow> state = ''success'')
    \<and> (Status status \<noteq> ''in_progress'' \<and> Conclusion status = ''neutral'' \<longrightarrow> state = ''success'')
    \<and> (Status status \<noteq> ''in_progress'' \<and> Conclusion status \<noteq> ''skipped''
          \<and> Conclusion status \<noteq> ''neutral'' \<longrightarrow> state = Conclusion status)"
  using transmitted_createStatusCommit [OF assms, of runevent pacopts status w] by simp

theorem C7_commit_status_state_witness:
  "transmitted_states (calls (snd (createStatusCommit sample_Provider sample_Event sample_PacOpts
       (sample_StatusOpts\<lparr>Conclusion := ''skipped''\<rparr>) sample_world))) = [Some ''success'']
   \<and> transmitted_states (calls (snd (createStatusCommit sample_Provider sample_Event sample_PacOpts
       (sample_StatusOpts\<lparr>Conclusion := ''neutral''\<rparr>) sample_world))) = [Some ''success'']
   \<and> transmitted_states (calls (snd (createStatusCommit sample_Provider sample_Event sample_PacOpts
       (sample_StatusOpts\<lparr>Status := ''in_progress''\<rparr>) sample_world))) = [Some ''pending'']
   \<and> transmitted_states (calls (snd (createStatusCommit sample_Provider sample_Event sample_PacOpts
       (sample_StatusOpts\<lparr>Conclusion := ''failure''\<rparr>) sample_world))) = [Some ''failure'']"
proof -
  have c: "Client sample_Provider = Some sample_Client"
    by (simp add: sample_Provider_def)
  have e: "calls sample_world = []"
    by (simp add: sample_world_def)
  show ?thesis
    using C7_commit_status_state [OF c, of sample_Event sample_PacOpts
            "sample_StatusOpts\<lparr>Conclusion := ''skipped''\<rparr>" sample_world]
          C7_commit_status_state [OF c, of sample_Event sample_PacOpts
            "sample_StatusOpts\<lparr>Conclusion := ''neutral''\<rparr>" sample_world]
          C7_commit_status_state [OF c, of sample_Event sample_PacOpts
            "sample_StatusOpts\<lparr>Status := ''in_progress''\<rparr>" sample_world]
          C7_commit_status_state [OF c, of sample_Event sample_PacOpts
            "sample_StatusOpts\<lparr>Conclusion := ''failure''\<rparr>" sample_world]
          e
    by (simp add: sample_StatusOpts_def)
qed

lemma sublist_in_summary: "sublist x (a @ b @ c @ pre @ x @ post)"
  unfolding sublist_def by (metis append.assoc)

lemma derive_in_progress:
  "Status s = ''in_progress'' \<Longrightarrow>
     Title (derive_title_summary p s) = ''CI has Started''
   \<and> Summary (derive_title_summary p s) =
       ApplicationName p
       @ (if OriginalPipelineRunName s \<noteq> '''' then ''/'' @ OriginalPipelineRunName s else '''')
       @ '' is running.''"
  by (simp add: derive_title_summary_def Let_def)

lemma derive_table:
  assumes "Status s \<noteq> ''in_progress''"
  shows "(Conclusion s = ''success'' \<longrightarrow>
            Title (derive_title_summary p s) = ''Success''
          \<and> sublist ''successfully'' (Summary (derive_title_summary p s)))
       \<and> (Conclusion s = ''failure'' \<longrightarrow>
            Title (derive_title_summary p s) = ''Failed''
          \<and> sublist ''failed'' (Summary (derive_title_summary p s)))
       \<and> (Conclusion s = ''skipped'' \<longrightarrow>
            Title (derive_title_summary p s) = ''Skipped''
          \<and> sublist ''skipping'' (Summary (derive_title_summary p s)))
       \<and> (Conclusion s = ''neutral'' \<longrightarrow>
            Title (derive_title_summary p s) = ''Unknown''
          \<and> sublist ''doesn't know'' (Summary (derive_title_summary p s)))"
proof -
  have 1: "sublist ''successfully'' (a @ b @ '' '' @ ''has <b>successfully</b> validated your commit.'')"
    for a b :: string
    using sublist_in_summary [of "''successfully''" a b "'' ''" "''has <b>''" "''</b> validated your commit.''"]
    by simp
  have 2: "sublist ''failed'' (a @ b @ '' '' @ ''has <b>failed</b>.'')" for a b :: string
    using sublist_in_summary [of "''failed''" a b "'' ''" "''has <b>''" "''</b>.''"] by simp
  have 3: "sublist ''skipping'' (a @ b @ '' '' @ ''is skipping this commit.'')" for a b :: string
    using sublist_in_summary [of "''skipping''" a b "'' ''" "''is ''" "'' this commit.''"] by simp
  have 4: "sublist ''doesn't know'' (a @ b @ '' '' @ ''doesn't know what happened with this commit.'')"
    for a b :: string
    using sublist_in_summary [of "''doesn't know''" a b "'' ''" "''''" "'' what happened with this commit.''"]
    by simp
  show ?thesis
    using assms 1 2 3 4 by (simp add: derive_title_summary_def Let_def)
qed

lemma derive_outside_table:
  "Status s \<noteq> ''in_progress'' \<Longrightarrow> Conclusion s \<noteq> ''success'' \<Longrightarrow> Conclusion s \<noteq> ''failure'' \<Longrightarrow>
   Conclusion s \<noteq> ''skipped'' \<Longrightarrow> Conclusion s \<noteq> ''neutral'' \<Longrightarrow>
     Title (derive_title_summary p s) = Title s
   \<and> Summary (derive_title_summary p s) =
       ApplicationName p
       @ (if OriginalPipelineRunName s \<noteq> '''' then ''/'' @ OriginalPipelineRunName s else '''')
       @ '' '' @ Summary s"
  by (simp add: derive_title_summary_def Let_def)

lemma derive_summary_table:
  assumes "Status s \<noteq> ''in_progress''"
  shows "(Conclusion s = ''success'' \<longrightarrow>
            Summary (derive_title_summary p s) =
              ApplicationName p
              @ (if OriginalPipelineRunName s \<noteq> '''' then ''/'' @ OriginalPipelineRunName s else '''')
              @ '' has <b>successfully</b> validated your commit.'')
       \<and> (Conclusion s = ''failure'' \<longrightarrow>
            Summary (derive_title_summary p s) =
              ApplicationName p
              @ (if OriginalPipelineRunName s \<noteq> '''' then ''/'' @ OriginalPipelineRunName s else '''')
              @ '' has <b>failed</b>.'')
       \<and> (Conclusion s = ''skipped'' \<longrightarrow>
            Summary (derive_title_summary p s) =
              ApplicationName p
              @ (if OriginalPipelineRunName s \<noteq> '''' then ''/'' @ OriginalPipelineRunName s else '''')
              @ '' is skipping this commit.'')
       \<and> (Conclusion s = ''neutral'' \<longrightarrow>
            Summary (derive_title_summary p s) =
              ApplicationName p
              @ (if OriginalPipelineRunName s \<noteq> '''' then ''/'' @ OriginalPipelineRunName s else '''')
              @ '' doesn't know what happened with this commit.'')"
  using assms by (simp add: derive_title_summary_def Let_def)

lemma derive_summary_prefix:
  "prefix (ApplicationName p
           @ (if OriginalPipelineRunName s \<noteq> '''' then ''/'' @ OriginalPipelineRunName s else '''')
           @ '' '')
          (Summary (derive_title_summary p s))"
  by (simp add: derive_title_summary_def Let_def)

lemma derive_other_fields:
  "derive_title_summary p s =
     s\<lparr>Title := Title (derive_title_summary p s), Summary := Summary (derive_title_summary p s)\<rparr>"
  by (simp add: derive_title_summary_def Let_def)

text \<open>
  C2, as the code has it. When a client is configured, \<open>CreateStatus\<close> hands to the
  backend the options with title and summary derived as follows, and every other field as
  the caller gave it. The summary always starts with the application name, then \<open>/\<close> and
  the original pipeline-run name when there is one, then a space. Status \<open>in_progress\<close>
  gives the title \<open>CI has Started\<close> and, behind that prefix, the summary \<open>is running.\<close>,
  whatever the conclusion. Otherwise the conclusions \<open>success\<close>, \<open>failure\<close>, \<open>skipped\<close> and
  \<open>neutral\<close> give the titles \<open>Success\<close>, \<open>Failed\<close>, \<open>Skipped\<close> and \<open>Unknown\<close> and, behind
  the prefix, the summaries \<open>has <b>successfully</b> validated your commit.\<close>,
  \<open>has <b>failed</b>.\<close>, \<open>is skipping this commit.\<close> and
  \<open>doesn't know what happened with this commit.\<close>, which contain \<open>successfully\<close>,
  \<open>failed\<close>, \<open>skipping\<close> and \<open>doesn't know\<close>; for any other conclusion the caller's title
  is kept and the caller's summary is kept behind the prefix. Without a client the call
  fails before any derivation.
\<close>

theorem C2_title_summary_derivation:
  "(Client v \<noteq> None \<longrightarrow>
      CreateStatus v runevent p s w =
        (if InfoFromRepo runevent
         then createStatusCommit v runevent p (derive_title_summary p s) w
         else getOrUpdateCheckRunStatus v runevent p (derive_title_summary p s) w))
   \<and> (Client v = None \<longrightarrow>
      CreateStatus v runevent p s w = (Err ''cannot set status on github no token or url set'', w))
   \<and> derive_title_summary p s =
       s\<lparr>Title := Title (derive_title_summary p s), Summary := Summary (derive_title_summary p s)\<rparr>
   \<and> prefix (ApplicationName p
             @ (if OriginalPipelineRunName s \<noteq> '''' then ''/'' @ OriginalPipelineRunName s else '''')
             @ '' '')
            (Summary (derive_title_summary p s))
   \<and> (Status s = ''in_progress'' \<longrightarrow>
        Title (derive_title_summary p s) = ''CI has Started''
      \<and> Summary (derive_title_summary p s) =
          ApplicationName p
          @ (if OriginalPipelineRunName s \<noteq> '''' then ''/'' @ OriginalPipelineRunName s else '''')
          @ '' is running.'')
   \<and> (Status s \<noteq> ''in_progress'' \<longrightarrow>
        (Conclusion s = ''success'' \<longrightarrow>
            Title (derive_title_summary p s) = ''Success''
          \<and> Summary (derive_title_summary p s) =
              ApplicationName p
              @ (if OriginalPipelineRunName s \<noteq> '''' then ''/'' @ OriginalPipelineRunName s else '''')
              @ '' has <b>successfully</b> validated your commit.''
          \<and> sublist ''successfully'' (Summary (derive_title_summary p s)))
      \<and> (Conclusion s = ''failure'' \<longrightarrow>
            Title (derive_title_summary p s) = ''Failed''
          \<and> Summary (derive_title_summary p s) =
              ApplicationName p
              @ (if OriginalPipelineRunName s \<noteq> '''' then ''/'' @ OriginalPipelineRunName s else '''')
              @ '' has <b>failed</b>.''
          \<and> sublist ''failed'' (Summary (derive_title_summary p s)))
      \<and> (Conclusion s = ''skipped'' \<longrightarrow>
            Title (derive_title_summary p s) = ''Skipped''
          \<and> Summary (derive_title_summary p s) =
              ApplicationName p
              @ (if OriginalPipelineRunName s \<noteq> '''' then ''/'' @ OriginalPipelineRunName s else '''')
              @ '' is skipping this commit.''
          \<and> sublist ''skipping'' (Summary (derive_title_summary p s)))
      \<and> (Conclusion s = ''neutral'' \<longrightarrow>
            Title (derive_title_summary p s) = ''Unknown''
          \<and> Summary (derive_title_summary p s) =
              ApplicationName p
              @ (if OriginalPipelineRunName s \<noteq> '''' then ''/'' @ OriginalPipelineRunName s else '''')
              @ '' doesn't know what happened with this commit.''
          \<and> sublist ''doesn't know'' (Summary (derive_title_summary p s)))
      \<and> (Conclusion s \<noteq> ''success'' \<and> Conclusion s \<noteq> ''failure''
          \<and> Conclusion s \<noteq> ''skipped'' \<and> Conclusion s \<noteq> ''neutral'' \<longrightarrow>
            Title (derive_title_summary p s) = Title s
          \<and> Summary (derive_title_summary p s) =
              ApplicationName p
              @ (if OriginalPipelineRunName s \<noteq> '''' then ''/'' @ OriginalPipelineRunName s else '''')
              @ '' '' @ Summary s))"
proof -
  have dispatch: "Client v \<noteq> None \<longrightarrow>
      CreateStatus v runevent p s w =
        (if InfoFromRepo runevent
         then createStatusCommit v runevent p (derive_title_summary p s) w
         else getOrUpdateCheckRunStatus v runevent p (derive_title_summary p s) w)"
    by (simp add: CreateStatus_def Let_def)
  have noclient: "Client v = None \<longrightarrow>
      CreateStatus v runevent p s w = (Err ''cannot set status on github no token or url set'', w)"
    by (simp add: CreateStatus_def)
  have table: "Status s \<noteq> ''in_progress'' \<longrightarrow>
        (Conclusion s = ''success'' \<longrightarrow>
            Title (derive_title_summary p s) = ''Success''
          \<and> Summary (derive_title_summary p s) =
              ApplicationName p
              @ (if OriginalPipelineRunName s \<noteq> '''' then ''/'' @ OriginalPipelineRunName s else '''')
              @ '' has <b>successfully</b> validated your commit.''
          \<and> sublist ''successfully'' (Summary (derive_title_summary p s)))
      \<and> (Conclusion s = ''failure'' \<longrightarrow>
            Title (derive_title_summary p s) = ''Failed''
          \<and> Summary (derive_title_summary p s) =
              ApplicationName p
              @ (if OriginalPipelineRunName s \<noteq> '''' then ''/'' @ OriginalPipelineRunName s else '''')
              @ '' has <b>failed</b>.''
          \<and> sublist ''failed'' (Summary (derive_title_summary p s)))
      \<and> (Conclusion s = ''skipped'' \<longrightarrow>
            Title (derive_title_summary p s) = ''Skipped''
          \<and> Summary (derive_title_summary p s) =
              ApplicationName p
              @ (if OriginalPipelineRunName s \<noteq> '''' then ''/'' @ OriginalPipelineRunName s else '''')
              @ '' is skipping this commit.''
          \<and> sublist ''skipping'' (Summary (derive_title_summary p s)))
      \<and> (Conclusion s = ''neutral'' \<longrightarrow>
            Title (derive_title_summary p s) = ''Unknown''
          \<and> Summary (derive_title_summary p s) =
              ApplicationName p
              @ (if OriginalPipelineRunName s \<noteq> '''' then ''/'' @ OriginalPipelineRunName s else '''')
              @ '' doesn't know what happened with this commit.''
          \<and> sublist ''doesn't know'' (Summary (derive_title_summary p s)))"
    using derive_table [of s p] derive_summary_table [of s p] by blast
  have outside: "Status s \<noteq> ''in_progress'' \<longrightarrow>
        Conclusion s \<noteq> ''success'' \<and> Conclusion s \<noteq> ''failure''
          \<and> Conclusion s \<noteq> ''skipped'' \<and> Conclusion s \<noteq> ''neutral'' \<longrightarrow>
            Title (derive_title_summary p s) = Title s
          \<and> Summary (derive_title_summary p s) =
              ApplicationName p
              @ (if OriginalPipelineRunName s \<noteq> '''' then ''/'' @ OriginalPipelineRunName s else '''')
              @ '' '' @ Summary s"
    using derive_outside_table [of s p] by blast
  show ?thesis
    using dispatch noclient derive_other_fields [of p s] derive_summary_prefix [of p s]
      derive_in_progress [of s p] table outside
    by blast
qed

theorem C2_title_summary_derivation_witness:
  "Title (derive_title_summary sample_PacOpts sample_StatusOpts) = ''Success''
   \<and> Summary (derive_title_summary sample_PacOpts sample_StatusOpts)
       = ''PAC/pr has <b>successfully</b> validated your commit.''
   \<and> sublist ''successfully'' (Summary (derive_title_summary sample_PacOpts sample_StatusOpts))
   \<and> Title (derive_title_summary sample_PacOpts (sample_StatusOpts\<lparr>Conclusion := ''failure''\<rparr>))
       = ''Failed''
   \<and> Summary (derive_title_summary sample_PacOpts (sample_StatusOpts\<lparr>Conclusion := ''failure''\<rparr>))
       = ''PAC/pr has <b>failed</b>.''
   \<and> Title (derive_title_summary sample_PacOpts (sample_StatusOpts\<lparr>Conclusion := ''skipped''\<rparr>))
       = ''Skipped''
   \<and> Summary (derive_title_summary sample_PacOpts (sample_StatusOpts\<lparr>Conclusion := ''skipped''\<rparr>))
       = ''PAC/pr is skipping this commit.''
   \<and> Title (derive_title_summary sample_PacOpts (sample_StatusOpts\<lparr>Conclusion := ''neutral''\<rparr>))
       = ''Unknown''
   \<and> Summary (derive_title_summary sample_PacOpts (sample_StatusOpts\<lparr>Conclusion := ''neutral''\<rparr>))
       = ''PAC/pr doesn't know what happened with this commit.''
   \<and> Title (derive_title_summary sample_PacOpts (sample_StatusOpts\<lparr>Status := ''in_progress''\<rparr>))
       = ''CI has Started''
   \<and> Summary (derive_title_summary sample_PacOpts (sample_StatusOpts\<lparr>Status := ''in_progress''\<rparr>))
       = ''PAC/pr is running.''
   \<and> Title (derive_title_summary sample_PacOpts (sample_StatusOpts\<lparr>Conclusion := ''cancelled''\<rparr>))
       = ''caller title''
   \<and> Summary (derive_title_summary sample_PacOpts (sample_StatusOpts\<lparr>Conclusion := ''cancelled''\<rparr>))
       = ''PAC/pr caller summary''
   \<and> CreateStatus sample_Provider sample_Event sample_PacOpts sample_StatusOpts sample_world
       = getOrUpdateCheckRunStatus sample_Provider sample_Event sample_PacOpts
           (derive_title_summary sample_PacOpts sample_StatusOpts) sample_world"
proof -
  have success: "Title (derive_title_summary sample_PacOpts sample_StatusOpts) = ''Success''
     \<and> Summary (derive_title_summary sample_PacOpts sample_StatusOpts)
         = ''PAC/pr has <b>successfully</b> validated your commit.''
     \<and> sublist ''successfully'' (Summary (derive_title_summary sample_PacOpts sample_StatusOpts))
     \<and> CreateStatus sample_Provider sample_Event sample_PacOpts sample_StatusOpts sample_world
         = getOrUpdateCheckRunStatus sample_Provider sample_Event sample_PacOpts
             (derive_title_summary sample_PacOpts sample_StatusOpts) sample_world"
    using C2_title_summary_derivation
            [of sample_Provider sample_Event sample_PacOpts sample_StatusOpts sample_world,
             THEN conjunct1]
          C2_title_summary_derivation
            [of sample_Provider sample_Event sample_PacOpts sample_StatusOpts sample_world,
             THEN conjunct2, THEN conjunct2, THEN conjunct2, THEN conjunct2]
    by (auto simp: sample_Provider_def sample_Event_def sample_PacOpts_def sample_StatusOpts_def)
  have failure:
    "Title (derive_title_summary sample_PacOpts (sample_StatusOpts\<lparr>Conclusion := ''failure''\<rparr>))
       = ''Failed''
     \<and> Summary (derive_title_summary sample_PacOpts (sample_StatusOpts\<lparr>Conclusion := ''failure''\<rparr>))
       = ''PAC/pr has <b>failed</b>.''"
    using C2_title_summary_derivation
            [of sample_Provider sample_Event sample_PacOpts
                "sample_StatusOpts\<lparr>Conclusion := ''failure''\<rparr>" sample_world,
             THEN conjunct2, THEN conjunct2, THEN conjunct2, THEN conjunct2]
    by (simp add: sample_PacOpts_def sample_StatusOpts_def)
  have skipped:
    "Title (derive_title_summary sample_PacOpts (sample_StatusOpts\<lparr>Conclusion := ''skipped''\<rparr>))
       = ''Skipped''
     \<and> Summary (derive_title_summary sample_PacOpts (sample_StatusOpts\<lparr>Conclusion := ''skipped''\<rparr>))
       = ''PAC/pr is skipping this commit.''"
    using C2_title_summary_derivation
            [of sample_Provider sample_Event sample_PacOpts
                "sample_StatusOpts\<lparr>Conclusion := ''skipped''\<rparr>" sample_world,
             THEN conjunct2, THEN conjunct2, THEN conjunct2, THEN conjunct2]
    by (simp add: sample_PacOpts_def sample_StatusOpts_def)
  have neutral:
    "Title (derive_title_summary sample_PacOpts (sample_StatusOpts\<lparr>Conclusion := ''neutral''\<rparr>))
       = ''Unknown''
     \<and> Summary (derive_title_summary sample_PacOpts (sample_StatusOpts\<lparr>Conclusion := ''neutral''\<rparr>))
       = ''PAC/pr doesn't know what happened with this commit.''"
    using C2_title_summary_derivation
            [of sample_Provider sample_Event sample_PacOpts
                "sample_StatusOpts\<lparr>Conclusion := ''neutral''\<rparr>" sample_world,
             THEN conjunct2, THEN conjunct2, THEN conjunct2, THEN conjunct2]
    by (simp add: sample_PacOpts_def sample_StatusOpts_def)
  have in_progress:
    "Title (derive_title_summary sample_PacOpts (sample_StatusOpts\<lparr>Status := ''in_progress''\<rparr>))
       = ''CI has Started''
     \<and> Summary (derive_title_summary sample_PacOpts (sample_StatusOpts\<lparr>Status := ''in_progress''\<rparr>))
       = ''PAC/pr is running.''"
    using C2_title_summary_derivation
            [of sample_Provider sample_Event sample_PacOpts
                "sample_StatusOpts\<lparr>Status := ''in_progress''\<rparr>" sample_world,
             THEN conjunct2, THEN conjunct2, THEN conjunct2, THEN conjunct2]
    by (simp add: sample_PacOpts_def sample_StatusOpts_def)
  have outside:
    "Title (derive_title_summary sample_PacOpts (sample_StatusOpts\<lparr>Conclusion := ''cancelled''\<rparr>))
       = ''caller title''
     \<and> Summary (derive_title_summary sample_PacOpts (sample_StatusOpts\<lparr>Conclusion := ''cancelled''\<rparr>))
       = ''PAC/pr caller summary''"
    using C2_title_summary_derivation
            [of sample_Provider sample_Event sample_PacOpts
                "sample_StatusOpts\<lparr>Conclusion := ''cancelled''\<rparr>" sample_world,
             THEN conjunct2, THEN conjunct2, THEN conjunct2, THEN conjunct2]
    by (simp add: sample_PacOpts_def sample_StatusOpts_def)
  show ?thesis
    using success failure skipped neutral in_progress outside by blast
qed

text \<open>
  The claim as stated fails for a conclusion outside the table: with conclusion
  \<open>pending\<close> and status \<open>queued\<close> the caller's title reaches the check-run update
  unchanged, and so does the caller's summary behind the prefix.
\<close>

theorem C2_caller_title_kept_counterexample:
  "Title (derive_title_summary sample_PacOpts
       (sample_StatusOpts\<lparr>Conclusion := ''pending'', Status := ''queued''\<rparr>)) = ''caller title''
   \<and> Summary (derive_title_summary sample_PacOpts
       (sample_StatusOpts\<lparr>Conclusion := ''pending'', Status := ''queued''\<rparr>)) = ''PAC/pr caller summary''
   \<and> map ucr_Output (update_requests (calls (snd (CreateStatus sample_Provider sample_Event
         sample_PacOpts (sample_StatusOpts\<lparr>Conclusion := ''pending'', Status := ''queued''\<rparr>)
         sample_world)))) =
       [Some \<lparr>out_Title = Some ''caller title'', out_Summary = Some ''PAC/pr caller summary'',
               out_Text = Some ''text''\<rparr>]"
  by (simp add: CreateStatus_def derive_title_summary_def
        sample_Provider_def sample_Event_def sample_PacOpts_def sample_StatusOpts_def
        sample_world_def getOrUpdateCheckRunStatus_def load_checkRunID_def find_or_create_def
        getExistingCheckRunID_def remote_call_def sample_Client_def createCheckRunStatus_def
        time_Now_def store_checkRunID_def send_update_def update_options_def getCheckName_def)

section \<open>Properties of \<open>GenerateJWT\<close>\<close>

lemma Unix_NewNumericDate: "Unix (NewNumericDate t) = Unix t"
  by (simp add: Unix_def NewNumericDate_def time_Second_def)

lemma Unix_five_minutes: "Unix (time_Add t (5 * time_Minute)) = Unix t + 300"
  by (simp add: Unix_def time_Add_def time_Minute_def time_Second_def)

lemma GenerateJWT_Ok:
  assumes "GenerateJWT env ip w = (Ok (tokenString, tok), w')"
  shows "\<exists>pem key.
           GetAppIDAndPrivateKey env (namespace ip) = Inr (claim_iss tok, pem)
         \<and> ParseRSAPrivateKeyFromPEM env pem = Inr key
         \<and> SignedString env tok key = Inr tokenString"
    and "Method tok = SigningMethodRS256"
    and "claim_exp tok = Some (Unix (app_clock w (app_ticks w)) + 300)"
    and "claim_iat tok = Some (Unix (app_clock w (Suc (app_ticks w))))"
    and "\<not> has_subject_or_audience tok"
    and "rc_Issuer (Registered (Claims tok)) = ''''"
proof -
  from assms obtain appID pem key where
    a: "GetAppIDAndPrivateKey env (namespace ip) = Inr (appID, pem)"
    and k: "ParseRSAPrivateKeyFromPEM env pem = Inr key"
    and t: "tok = NewWithClaims SigningMethodRS256
              \<lparr>Issuer = appID,
               Registered = empty_RegisteredClaims
                 \<lparr>rc_ExpiresAt :=
                    Some (NewNumericDate (time_Add (app_clock w (app_ticks w)) (5 * time_Minute))),
                  rc_IssuedAt := Some (NewNumericDate (app_clock w (Suc (app_ticks w))))\<rparr>\<rparr>"
    and s: "SignedString env tok key = Inr tokenString"
    by (auto simp: GenerateJWT_def app_time_Now_def Let_def split: sum.splits prod.splits)
  from t have i: "claim_iss tok = appID"
    by (simp add: claim_iss_def NewWithClaims_def)
  show "\<exists>pem key.
           GetAppIDAndPrivateKey env (namespace ip) = Inr (claim_iss tok, pem)
         \<and> ParseRSAPrivateKeyFromPEM env pem = Inr key
         \<and> SignedString env tok key = Inr tokenString"
    using a k s i by blast
  show "Method tok = SigningMethodRS256"
    using t by (simp add: NewWithClaims_def)
  show "claim_exp tok = Some (Unix (app_clock w (app_ticks w)) + 300)"
    using t by (simp add: claim_exp_def NewWithClaims_def Unix_NewNumericDate Unix_five_minutes)
  show "claim_iat tok = Some (Unix (app_clock w (Suc (app_ticks w))))"
    using t by (simp add: claim_iat_def NewWithClaims_def Unix_NewNumericDate)
  show "\<not> has_subject_or_audience tok"
    using t by (simp add: has_subject_or_audience_def NewWithClaims_def empty_RegisteredClaims_def)
  show "rc_Issuer (Registered (Claims tok)) = ''''"
    using t by (simp add: NewWithClaims_def empty_RegisteredClaims_def)
qed

text \<open>
  C4, as the code has it. \<open>GenerateJWT\<close> reads the clock twice. In every token it
  produces, \<open>exp\<close> is the first reading in whole seconds plus 300 and \<open>iat\<close> is the second
  reading in whole seconds. So \<open>exp = iat + 300\<close> exactly when the two readings fall in the
  same second, and \<open>exp \<le> iat + 300\<close> whenever the second reading is not earlier than the
  first. The token is signed with RS256, \<open>iss\<close> is the numeric application ID that the
  secret store returned, and there is no subject and no audience.
\<close>

theorem C4_jwt_claims:
  assumes "GenerateJWT env ip w = (Ok (tokenString, tok), w')"
  shows "claim_exp tok = Some (Unix (app_clock w (app_ticks w)) + 300)
       \<and> claim_iat tok = Some (Unix (app_clock w (Suc (app_ticks w))))
       \<and> ((claim_exp tok = map_option (\<lambda>iat. iat + 300) (claim_iat tok)) =
            (Unix (app_clock w (app_ticks w)) = Unix (app_clock w (Suc (app_ticks w)))))
       \<and> (app_clock w (app_ticks w) \<le> app_clock w (Suc (app_ticks w)) \<longrightarrow>
            the (claim_exp tok) \<le> the (claim_iat tok) + 300)
       \<and> (\<exists>pem. GetAppIDAndPrivateKey env (namespace ip) = Inr (claim_iss tok, pem))
       \<and> Method tok = SigningMethodRS256
       \<and> \<not> has_subject_or_audience tok"
proof -
  have mono: "Unix a \<le> Unix b" if "a \<le> b" for a b
    using that by (simp add: Unix_def time_Second_def zdiv_mono1)
  show ?thesis
    using GenerateJWT_Ok [OF assms] mono
    by auto
qed

theorem C4_jwt_claims_witness:
  "jwt_of (GenerateJWT (sample_collaborators (\<lambda>i. []) []) sample_Install
      (sample_app_world (\<lambda>n. 1700000000000000000 + int n))) \<noteq> None
   \<and> claim_exp (the (jwt_of (GenerateJWT (sample_collaborators (\<lambda>i. []) []) sample_Install
      (sample_app_world (\<lambda>n. 1700000000000000000 + int n))))) = Some 1700000300
   \<and> claim_iat (the (jwt_of (GenerateJWT (sample_collaborators (\<lambda>i. []) []) sample_Install
      (sample_app_world (\<lambda>n. 1700000000000000000 + int n))))) = Some 1700000000
   \<and> claim_iss (the (jwt_of (GenerateJWT (sample_collaborators (\<lambda>i. []) []) sample_Install
      (sample_app_world (\<lambda>n. 1700000000000000000 + int n))))) = 12345"
proof -
  define w :: "int64 option app_world"
    where "w = sample_app_world (\<lambda>n. 1700000000000000000 + int n)"
  define env :: "(string, int64 option) collaborators"
    where "env = sample_collaborators (\<lambda>i. []) []"
  obtain r w' where g: "GenerateJWT env sample_Install w = (r, w')"
    by (cases "GenerateJWT env sample_Install w")
  then obtain tok where r: "r = Ok (''signed'', tok)"
    by (auto simp: GenerateJWT_def env_def w_def sample_collaborators_def sample_Install_def
        sample_app_world_def app_time_Now_def Let_def)
  have c: "app_clock w (app_ticks w) = 1700000000000000000"
      "app_clock w (Suc (app_ticks w)) = 1700000000000000001"
    by (simp_all add: w_def sample_app_world_def)
  have p: "GetAppIDAndPrivateKey env (namespace sample_Install) = Inr (12345, ''PEM'')"
    by (simp add: env_def sample_collaborators_def)
  show ?thesis
    using C4_jwt_claims [of env sample_Install w "''signed''" tok w'] g r c p
    unfolding env_def [symmetric] w_def [symmetric]
    by (simp add: jwt_of_def Unix_def time_Second_def)
qed

text \<open>
  The claim as stated fails when a second begins between the two readings of the clock:
  with the first reading one nanosecond before a full second and the second reading on it,
  the token carries \<open>exp = iat + 299\<close>.
\<close>

theorem C4_exp_not_iat_plus_300_counterexample:
  "jwt_of (GenerateJWT (sample_collaborators (\<lambda>i. []) []) sample_Install
      (sample_app_world (\<lambda>n. 1700000000999999999 + int n))) =
     Some \<lparr>Method = ''RS256'',
           Claims = \<lparr>Issuer = 12345,
                     Registered = \<lparr>rc_Issuer = '''', rc_Subject = '''', rc_Audience = [],
                                    rc_ExpiresAt = Some 1700000300000000000,
                                    rc_NotBefore = None,
                                    rc_IssuedAt = Some 1700000001000000000,
                                    rc_ID = ''''\<rparr>\<rparr>\<rparr>
   \<and> claim_exp (the (jwt_of (GenerateJWT (sample_collaborators (\<lambda>i. []) []) sample_Install
      (sample_app_world (\<lambda>n. 1700000000999999999 + int n))))) = Some 1700000300
   \<and> claim_iat (the (jwt_of (GenerateJWT (sample_collaborators (\<lambda>i. []) []) sample_Install
      (sample_app_world (\<lambda>n. 1700000000999999999 + int n))))) = Some 1700000001"
  by (simp add: jwt_of_def GenerateJWT_def sample_collaborators_def sample_Install_def
      sample_app_world_def app_time_Now_def Let_def NewWithClaims_def SigningMethodRS256_def
      empty_RegisteredClaims_def NewNumericDate_def time_Add_def time_Minute_def time_Second_def
      claim_exp_def claim_iat_def Unix_def)

section \<open>Properties of \<open>GetAndUpdateInstallationID\<close>\<close>




text \<open>The loop over a list in two parts: the second part is scanned only when the first
  part is exhausted without a match and without an error.\<close>

lemma scan_installations_append:
  "scan_installations env ip h (pre @ post) token w =
     (case scan_installations env ip h pre token w of
        (Ok (Exhausted t'), w') \<Rightarrow> scan_installations env ip h post t' w'
      | other \<Rightarrow> other)"
proof (induction pre arbitrary: token w)
  case Nil
  show ?case by simp
next
  case (Cons inst pre)
  show ?case
  proof (cases "inst_ID inst")
    case None
    then show ?thesis by simp
  next
    case (Some iid)
    obtain r1 w1 where e: "(if iid \<noteq> 0 then exchange_token env ip h iid w else (Inr token, w)) = (r1, w1)"
      by (cases "if iid \<noteq> 0 then exchange_token env ip h iid w else (Inr token, w)")
    show ?thesis
    proof (cases r1)
      case (Inl err)
      then show ?thesis using Some e by simp
    next
      case (Inr token1)
      obtain r2 w2 where l: "listRepos env ip w1 = (r2, w2)"
        by (cases "listRepos env ip w1")
      show ?thesis
      proof (cases r2)
        case (Ok exist)
        then show ?thesis
          using Some e Inr l Cons.IH [of token1 w2] by simp
      next
        case (Err err)
        then show ?thesis using Some e Inr l by simp
      next
        case (Panic m)
        then show ?thesis using Some e Inr l by simp
      qed
    qed
  qed
qed

lemma sample_fetch:
  "fetch_installations (sample_collaborators repos insts) sample_Install (sample_app_world clk) =
     (Ok ('''', insts), (sample_app_world clk)\<lparr>app_ticks := Suc (Suc 0)\<rparr>)"
  by (simp add: fetch_installations_def GenerateJWT_def sample_collaborators_def
      sample_Install_def sample_app_world_def app_time_Now_def Let_def GetReponse_def)

lemma decimal_digits:
  "decimal (Suc 0) = ''1''" "decimal 1 = ''1''" "decimal 2 = ''2''" "decimal 3 = ''3''"
  by (simp_all add: decimal.simps)

text \<open>
  C5. The break at the first match is in the code, but the repository list is fetched
  once, while the client is authenticated as the first installation, and reused for every
  later installation. With three installations of which only the second can access the
  target repository, the scan exchanges a token for all three and returns installation
  ID 0 with the third installation's token.
\<close>

theorem C5_second_installation_never_matched:
  "fst (GetAndUpdateInstallationID
          (sample_collaborators
             (\<lambda>i. if i = 2 then [''https://github.com/org/target'']
                   else [''https://github.com/org/other''])
             [\<lparr>inst_ID = Some 1\<rparr>, \<lparr>inst_ID = Some 2\<rparr>, \<lparr>inst_ID = Some 3\<rparr>])
          sample_Install (sample_app_world (\<lambda>n. int n)))
     = Ok ('''', ''token-3'', 0)
   \<and> app_calls (snd (GetAndUpdateInstallationID
          (sample_collaborators
             (\<lambda>i. if i = 2 then [''https://github.com/org/target'']
                   else [''https://github.com/org/other''])
             [\<lparr>inst_ID = Some 1\<rparr>, \<lparr>inst_ID = Some 2\<rparr>, \<lparr>inst_ID = Some 3\<rparr>])
          sample_Install (sample_app_world (\<lambda>n. int n))))
     = [TokenExchange '''' 1 ''pac'' (Inr ''token-1''), RepoListFetch,
        TokenExchange '''' 2 ''pac'' (Inr ''token-2''),
        TokenExchange '''' 3 ''pac'' (Inr ''token-3'')]"
  unfolding GetAndUpdateInstallationID_def sample_fetch
  by (simp add: sample_collaborators_def sample_Install_def sample_app_world_def
      exchange_token_def listRepos_def decimal_digits)

text \<open>
  C6, as the code has it. The identifiers are checked inside the loop, one installation at
  a time. When the scan reaches an installation whose identifier is nil, that is, the
  installations before it were exhausted without a match and without an error, the call
  returns the error \<open>installation ID is nil\<close> and leaves everything as it was after the
  installations before it: no token exchange and no repository listing happens for the nil
  entry. When an earlier installation matches, the scan stops there and an entry with a
  nil identifier behind it is never looked at.
\<close>

theorem C6_nil_installation_id:
  "(inst_ID inst = None \<longrightarrow>
      scan_installations env ip h (inst # post) token w = (Err ''installation ID is nil'', w))
   \<and> (inst_ID inst = None
        \<and> scan_installations env ip h pre token w = (Ok (Exhausted t'), w') \<longrightarrow>
      scan_installations env ip h (pre @ inst # post) token w =
        (Err ''installation ID is nil'', w'))
   \<and> (scan_installations env ip h pre token w = (Ok (Matched t' iid), w') \<longrightarrow>
      scan_installations env ip h (pre @ inst # post) token w = (Ok (Matched t' iid), w'))
   \<and> (inst_ID inst = None
        \<and> fetch_installations env ip w0 = (Ok (h, pre @ inst # post), w)
        \<and> scan_installations env ip h pre '''' w = (Ok (Exhausted t'), w') \<longrightarrow>
      GetAndUpdateInstallationID env ip w0 = (Err ''installation ID is nil'', w')
      \<and> app_calls w' = app_calls (snd (scan_installations env ip h pre '''' w)))"
  by (simp add: scan_installations_append GetAndUpdateInstallationID_def)

theorem C6_nil_installation_id_witness:
  "fst (GetAndUpdateInstallationID
          (sample_collaborators (\<lambda>i. [''https://github.com/org/other''])
             [\<lparr>inst_ID = Some 1\<rparr>, \<lparr>inst_ID = None\<rparr>, \<lparr>inst_ID = Some 3\<rparr>])
          sample_Install (sample_app_world (\<lambda>n. int n)))
     = Err ''installation ID is nil''
   \<and> app_calls (snd (GetAndUpdateInstallationID
          (sample_collaborators (\<lambda>i. [''https://github.com/org/other''])
             [\<lparr>inst_ID = Some 1\<rparr>, \<lparr>inst_ID = None\<rparr>, \<lparr>inst_ID = Some 3\<rparr>])
          sample_Install (sample_app_world (\<lambda>n. int n))))
     = [TokenExchange '''' 1 ''pac'' (Inr ''token-1''), RepoListFetch]"
proof -
  define env :: "(string, int64 option) collaborators" where
    "env = sample_collaborators (\<lambda>i. [''https://github.com/org/other''])
             [\<lparr>inst_ID = Some 1\<rparr>, \<lparr>inst_ID = None\<rparr>, \<lparr>inst_ID = Some 3\<rparr>]"
  define w :: "int64 option app_world" where
    "w = (sample_app_world (\<lambda>n. int n))\<lparr>app_ticks := Suc (Suc 0)\<rparr>"
  define w' :: "int64 option app_world" where
    "w' = w\<lparr>ghClient := Some 1, repoList := Some [''https://github.com/org/other''],
            app_calls := [TokenExchange '''' 1 ''pac'' (Inr ''token-1''), RepoListFetch]\<rparr>"
  have f: "fetch_installations env sample_Install (sample_app_world (\<lambda>n. int n)) =
      (Ok ('''', [\<lparr>inst_ID = Some 1\<rparr>] @ \<lparr>inst_ID = None\<rparr> # [\<lparr>inst_ID = Some 3\<rparr>]), w)"
    unfolding env_def w_def sample_fetch by simp
  have s: "scan_installations env sample_Install '''' [\<lparr>inst_ID = Some 1\<rparr>] '''' w =
      (Ok (Exhausted ''token-1''), w')"
    by (simp add: env_def w_def w'_def sample_collaborators_def sample_Install_def
        sample_app_world_def exchange_token_def listRepos_def decimal_digits)
  have n: "inst_ID \<lparr>inst_ID = None\<rparr> = None"
    by simp
  have "GetAndUpdateInstallationID env sample_Install (sample_app_world (\<lambda>n. int n)) =
      (Err ''installation ID is nil'', w')"
    using C6_nil_installation_id
            [of "\<lparr>inst_ID = None\<rparr>" env sample_Install "''''" "[\<lparr>inst_ID = Some 3\<rparr>]" "''''" w
                "[\<lparr>inst_ID = Some 1\<rparr>]" "''token-1''" w' _ "sample_app_world (\<lambda>n. int n)"]
          f s n
    by simp
  then show ?thesis
    unfolding env_def by (simp add: w'_def)
qed

text \<open>
  The claim as stated fails for a nil identifier behind a matching installation: the call
  returns that installation's token and ID and no error.
\<close>

theorem C6_nil_after_match_counterexample:
  "fst (GetAndUpdateInstallationID
          (sample_collaborators (\<lambda>i. [''https://github.com/org/target''])
             [\<lparr>inst_ID = Some 1\<rparr>, \<lparr>inst_ID = None\<rparr>])
          sample_Install (sample_app_world (\<lambda>n. int n)))
     = Ok ('''', ''token-1'', 1)"
  unfolding GetAndUpdateInstallationID_def sample_fetch
  by (simp add: sample_collaborators_def sample_Install_def sample_app_world_def
      exchange_token_def listRepos_def decimal_digits)









section \<open>Properties of the check-run cache\<close>

lemma create_requests_append:
  "create_requests (xs @ ys) = create_requests xs @ create_requests ys"
  by (induction xs rule: create_requests.induct) simp_all

lemma updated_ids_append:
  "updated_ids (xs @ ys) = updated_ids xs @ updated_ids ys"
  by (induction xs rule: updated_ids.induct) simp_all

lemma CheckRunIDS_remote_call: "CheckRunIDS (snd (remote_call c f w)) = CheckRunIDS w"
  by (simp add: remote_call_def split: prod.split)

lemma CheckRunIDS_update_options:
  "CheckRunIDS (snd (update_options status pacopts w)) = CheckRunIDS w"
  by (simp add: update_options_def time_Now_def Let_def)

lemma CheckRunIDS_getExistingCheckRunID:
  "CheckRunIDS (snd (getExistingCheckRunID c appID runevent status w)) = CheckRunIDS w"
  by (simp add: getExistingCheckRunID_def remote_call_def split: prod.split sum.split option.split)

lemma CheckRunIDS_createCheckRunStatus:
  "CheckRunIDS (snd (createCheckRunStatus c runevent pacopts status w)) = CheckRunIDS w"
  by (simp add: createCheckRunStatus_def remote_call_def time_Now_def Let_def
      split: prod.split sum.split)

text \<open>What \<open>find_or_create\<close> leaves behind: the map untouched, no update, at most one
  creation; and exactly one creation when it returns an identifier that the remote
  listing did not give.\<close>

lemma find_or_create_effect:
  assumes "find_or_create v runevent pacopts status w = (r, w1)"
  shows "CheckRunIDS w1 = CheckRunIDS w"
    and "updated_ids (calls w1) = updated_ids (calls w)"
    and "length (create_requests (calls w1)) \<le> length (create_requests (calls w)) + 1"
    and "(\<exists>i. r = Ok i) \<and>
         (\<forall>c i. Client v = Some c \<longrightarrow>
            fst (getExistingCheckRunID c (ApplicationID v) runevent status w) \<noteq> Ok (Some i))
         \<Longrightarrow> length (create_requests (calls w1)) = length (create_requests (calls w)) + 1"
proof -
  show "CheckRunIDS w1 = CheckRunIDS w"
  proof (cases "Client v")
    case None
    then show ?thesis using assms by (simp add: find_or_create_def)
  next
    case (Some c)
    obtain g wg where g: "getExistingCheckRunID c (ApplicationID v) runevent status w = (g, wg)"
      by (cases "getExistingCheckRunID c (ApplicationID v) runevent status w")
    have 1: "CheckRunIDS wg = CheckRunIDS w"
      using CheckRunIDS_getExistingCheckRunID [of c "ApplicationID v" runevent status w] g by simp
    have 2: "CheckRunIDS (snd (createCheckRunStatus c runevent pacopts status wg)) = CheckRunIDS w"
      using CheckRunIDS_createCheckRunStatus [of c runevent pacopts status wg] 1 by simp
    show ?thesis
      using assms Some g 1 2
      by (auto simp: find_or_create_def split: res.splits option.splits)
  qed
next
  have main: "updated_ids (calls w1) = updated_ids (calls w)
      \<and> length (create_requests (calls w1)) \<le> length (create_requests (calls w)) + 1
      \<and> ((\<exists>i. r = Ok i) \<and>
         (\<forall>c i. Client v = Some c \<longrightarrow>
            fst (getExistingCheckRunID c (ApplicationID v) runevent status w) \<noteq> Ok (Some i))
         \<longrightarrow> length (create_requests (calls w1)) = length (create_requests (calls w)) + 1)"
  proof (cases "Client v")
    case None
    then show ?thesis using assms by (auto simp: find_or_create_def)
  next
    case (Some c)
    obtain g wg where g: "getExistingCheckRunID c (ApplicationID v) runevent status w = (g, wg)"
      by (cases "getExistingCheckRunID c (ApplicationID v) runevent status w")
    have cg: "calls wg = calls w @ [ListCheckRunsForRef (Organization runevent)
                (Repository runevent) (SHA runevent) (ApplicationID v)]"
      using calls_getExistingCheckRunID [of c "ApplicationID v" runevent status w] g by simp
    obtain opts where cc: "calls (snd (createCheckRunStatus c runevent pacopts status wg)) =
        calls wg @ [CreateCheckRun (Organization runevent) (Repository runevent) opts]"
      using calls_createCheckRunStatus by blast
    show ?thesis
    proof (cases "\<exists>i. g = Ok (Some i) \<or> (\<exists>m. g = Panic m)")
      case True
      then have "w1 = wg" and "\<not> ((\<exists>i. r = Ok i) \<and> (\<forall>i. g \<noteq> Ok (Some i)))"
        using assms Some g by (auto simp: find_or_create_def split: res.splits option.splits)
      then show ?thesis
        using cg Some g by (auto simp: updated_ids_append create_requests_append)
    next
      case False
      then have "w1 = snd (createCheckRunStatus c runevent pacopts status wg)"
        using assms Some g by (auto simp: find_or_create_def split: res.splits option.splits)
      then show ?thesis
        using cg cc by (simp add: updated_ids_append create_requests_append)
    qed
  qed
  then show "updated_ids (calls w1) = updated_ids (calls w)"
    and "length (create_requests (calls w1)) \<le> length (create_requests (calls w)) + 1"
    and "(\<exists>i. r = Ok i) \<and>
         (\<forall>c i. Client v = Some c \<longrightarrow>
            fst (getExistingCheckRunID c (ApplicationID v) runevent status w) \<noteq> Ok (Some i))
         \<Longrightarrow> length (create_requests (calls w1)) = length (create_requests (calls w)) + 1"
    by blast+
qed

lemma send_update_effect:
  "calls (snd (send_update v runevent pacopts status checkRunID w)) =
     calls w @
       (case Client v of
          None \<Rightarrow> []
        | Some c \<Rightarrow>
            (case checkRunID of
               None \<Rightarrow> []
             | Some cid \<Rightarrow>
                 [UpdateCheckRun (Organization runevent) (Repository runevent) cid
                    (fst (update_options status pacopts w))]))"
  "CheckRunIDS (snd (send_update v runevent pacopts status checkRunID w)) = CheckRunIDS w"
proof -
  obtain opts w1 where u: "update_options status pacopts w = (opts, w1)"
    by (cases "update_options status pacopts w")
  then have k: "calls w1 = calls w" "CheckRunIDS w1 = CheckRunIDS w"
    using calls_update_options [of status pacopts w]
      CheckRunIDS_update_options [of status pacopts w] by simp_all
  show "calls (snd (send_update v runevent pacopts status checkRunID w)) =
     calls w @
       (case Client v of
          None \<Rightarrow> []
        | Some c \<Rightarrow>
            (case checkRunID of
               None \<Rightarrow> []
             | Some cid \<Rightarrow>
                 [UpdateCheckRun (Organization runevent) (Repository runevent) cid
                    (fst (update_options status pacopts w))]))"
    using u k by (simp add: send_update_def remote_call_def split: prod.split option.split)
  show "CheckRunIDS (snd (send_update v runevent pacopts status checkRunID w)) = CheckRunIDS w"
    using u k by (simp add: send_update_def remote_call_def split: prod.split option.split)
qed

lemma send_update_Ok:
  assumes "send_update v runevent pacopts status checkRunID w = (Ok (), w1)"
  shows "\<exists>c cid. Client v = Some c \<and> checkRunID = Some cid"
  using assms
  by (auto simp: send_update_def split: prod.splits option.splits)

text \<open>A call that finds an identifier in the map issues no listing and no creation, and
  sends its update to that identifier.\<close>

lemma getOrUpdate_cache_hit:
  assumes "CheckRunIDS w (PipelineRunName status) = Some (Int64Ptr (Some cid))"
  shows "getOrUpdateCheckRunStatus v runevent pacopts status w =
           send_update v runevent pacopts status (Some cid) (store_checkRunID status (Some cid) w)"
  using assms by (simp add: getOrUpdateCheckRunStatus_def load_checkRunID_def)

text \<open>A call that returns without error has stored the identifier it sent its update to,
  and has issued at most one creation.\<close>

lemma getOrUpdate_Ok:
  assumes "getOrUpdateCheckRunStatus v runevent pacopts status w = (Ok (), w1)"
  shows "\<exists>cid. CheckRunIDS w1 (PipelineRunName status) = Some (Int64Ptr (Some cid))
            \<and> Client v \<noteq> None
            \<and> updated_ids (calls w1) = updated_ids (calls w) @ [cid]
            \<and> length (create_requests (calls w1)) \<le> length (create_requests (calls w)) + 1
            \<and> (CheckRunIDS w (PipelineRunName status) = None
                 \<and> (\<forall>c i. Client v = Some c \<longrightarrow>
                       fst (getExistingCheckRunID c (ApplicationID v) runevent status w)
                         \<noteq> Ok (Some i))
                 \<longrightarrow> length (create_requests (calls w1)) = length (create_requests (calls w)) + 1)"
proof -
  from assms obtain cached ok where l: "load_checkRunID status w = Ok (cached, ok)"
    by (cases "load_checkRunID status w") (auto simp: getOrUpdateCheckRunStatus_def)
  define step where
    "step = (if \<not> ok then find_or_create v runevent pacopts status w else (Ok cached, w))"
  obtain r w0 where s: "step = (r, w0)" by (cases step)
  from assms l s obtain checkRunID where r: "r = Ok checkRunID"
    and u: "send_update v runevent pacopts status checkRunID (store_checkRunID status checkRunID w0)
              = (Ok (), w1)"
    by (cases r) (auto simp: getOrUpdateCheckRunStatus_def step_def)
  from send_update_Ok [OF u] obtain c cid where c: "Client v = Some c"
    and cid: "checkRunID = Some cid"
    by blast
  have w1: "w1 = snd (send_update v runevent pacopts status checkRunID
                        (store_checkRunID status checkRunID w0))"
    using u by simp
  have calls1: "calls w1 = calls w0 @
      [UpdateCheckRun (Organization runevent) (Repository runevent) cid
         (fst (update_options status pacopts (store_checkRunID status checkRunID w0)))]"
    unfolding w1 send_update_effect(1) using c cid by (simp add: calls_store_checkRunID)
  have ids1: "CheckRunIDS w1 (PipelineRunName status) = Some (Int64Ptr (Some cid))"
    unfolding w1 send_update_effect(2) using cid by (simp add: store_checkRunID_def)
  have a: "updated_ids (calls w0) = updated_ids (calls w)"
    and b: "length (create_requests (calls w0)) \<le> length (create_requests (calls w)) + 1"
    using s find_or_create_effect(2,3) [of v runevent pacopts status w r w0]
    by (auto simp: step_def split: if_splits)
  have e: "length (create_requests (calls w0)) = length (create_requests (calls w)) + 1"
    if "CheckRunIDS w (PipelineRunName status) = None"
      and "\<forall>c i. Client v = Some c \<longrightarrow>
             fst (getExistingCheckRunID c (ApplicationID v) runevent status w) \<noteq> Ok (Some i)"
  proof -
    from that(1) l have "\<not> ok"
      by (simp add: load_checkRunID_def)
    with s have "find_or_create v runevent pacopts status w = (r, w0)"
      by (simp add: step_def)
    from find_or_create_effect(4) [OF this] r that(2) show ?thesis
      by blast
  qed
  show ?thesis
    using ids1 calls1 a b e c by (auto simp: updated_ids_append create_requests_append)
qed

lemma caller_step_simps:
  "caller_step v runevent pacopts status AtLoad w =
     (case load_checkRunID status w of
        Err e \<Rightarrow> (Returned (Err e), w)
      | Panic m \<Rightarrow> (Returned (Panic m), w)
      | Ok (cached, ok) \<Rightarrow> if \<not> ok then (AtList, w) else (AtStore cached, w))"
  "caller_step v runevent pacopts status AtList w =
     (case Client v of
        None \<Rightarrow> (Returned (Panic ''nil pointer dereference''), w)
      | Some c \<Rightarrow>
          (case getExistingCheckRunID c (ApplicationID v) runevent status w of
             (Panic m, w1) \<Rightarrow> (Returned (Panic m), w1)
           | (Ok (Some checkRunID), w1) \<Rightarrow> (AtStore (Some checkRunID), w1)
           | (_, w1) \<Rightarrow> (AtCreate, w1)))"
  "caller_step v runevent pacopts status AtCreate w =
     (case Client v of
        None \<Rightarrow> (Returned (Panic ''nil pointer dereference''), w)
      | Some c \<Rightarrow>
          (case createCheckRunStatus c runevent pacopts status w of
             (Err e, w1) \<Rightarrow> (Returned (Err e), w1)
           | (Panic m, w1) \<Rightarrow> (Returned (Panic m), w1)
           | (Ok checkRunID, w1) \<Rightarrow> (AtStore checkRunID, w1)))"
  "caller_step v runevent pacopts status (AtStore i) w =
     (AtUpdate i, store_checkRunID status i w)"
  "caller_step v runevent pacopts status (AtUpdate i) w =
     (case send_update v runevent pacopts status i w of (r, w1) \<Rightarrow> (Returned r, w1))"
  "caller_step v runevent pacopts status (Returned r) w = (Returned r, w)"
  by (simp_all add: caller_step_def)

lemma run_caller_Returned:
  "run_caller n v runevent pacopts status (Returned r) w = (Returned r, w)"
  by (induction n) (simp_all add: caller_step_simps)

lemma run_caller_AtUpdate:
  "run_caller (Suc n) v runevent pacopts status (AtUpdate i) w =
     (case send_update v runevent pacopts status i w of (r, w1) \<Rightarrow> (Returned r, w1))"
  by (simp add: caller_step_simps run_caller_Returned split: prod.split)

lemma run_caller_AtStore:
  "run_caller (Suc (Suc n)) v runevent pacopts status (AtStore i) w =
     (case send_update v runevent pacopts status i (store_checkRunID status i w) of
        (r, w1) \<Rightarrow> (Returned r, w1))"
proof -
  have "run_caller (Suc (Suc n)) v runevent pacopts status (AtStore i) w =
          run_caller (Suc n) v runevent pacopts status (AtUpdate i) (store_checkRunID status i w)"
    by (simp add: caller_step_simps)
  then show ?thesis
    by (simp only: run_caller_AtUpdate)
qed

lemma run_caller_AtCreate:
  assumes "Client v = Some c"
  shows "run_caller (Suc (Suc (Suc n))) v runevent pacopts status AtCreate w =
     (case createCheckRunStatus c runevent pacopts status w of
        (Err e, w1) \<Rightarrow> (Returned (Err e), w1)
      | (Panic m, w1) \<Rightarrow> (Returned (Panic m), w1)
      | (Ok i, w1) \<Rightarrow>
          (case send_update v runevent pacopts status i (store_checkRunID status i w1) of
             (r, w2) \<Rightarrow> (Returned r, w2)))"
proof -
  obtain k wk where k: "createCheckRunStatus c runevent pacopts status w = (k, wk)"
    by (cases "createCheckRunStatus c runevent pacopts status w")
  have step: "caller_step v runevent pacopts status AtCreate w =
      (case k of Err e \<Rightarrow> (Returned (Err e), wk) | Panic m \<Rightarrow> (Returned (Panic m), wk)
       | Ok i \<Rightarrow> (AtStore i, wk))"
    using assms k by (simp add: caller_step_simps(3) split: res.split)
  show ?thesis
  proof (cases k)
    case (Ok i)
    have "run_caller (Suc (Suc (Suc n))) v runevent pacopts status AtCreate w =
            run_caller (Suc (Suc n)) v runevent pacopts status (AtStore i) wk"
      using step Ok by (simp del: run_caller.simps add: run_caller.simps(2) [of "Suc (Suc n)"])
    then show ?thesis
      using k Ok by (simp only: run_caller_AtStore) simp
  next
    case (Err e)
    have "run_caller (Suc (Suc (Suc n))) v runevent pacopts status AtCreate w =
            run_caller (Suc (Suc n)) v runevent pacopts status (Returned (Err e)) wk"
      using step Err by (simp del: run_caller.simps add: run_caller.simps(2) [of "Suc (Suc n)"])
    then show ?thesis
      using k Err by (simp only: run_caller_Returned) simp
  next
    case (Panic m)
    have "run_caller (Suc (Suc (Suc n))) v runevent pacopts status AtCreate w =
            run_caller (Suc (Suc n)) v runevent pacopts status (Returned (Panic m)) wk"
      using step Panic by (simp del: run_caller.simps add: run_caller.simps(2) [of "Suc (Suc n)"])
    then show ?thesis
      using k Panic by (simp only: run_caller_Returned) simp
  qed
qed

lemma run_caller_AtList:
  "run_caller (Suc (Suc (Suc (Suc n)))) v runevent pacopts status AtList w =
     (case find_or_create v runevent pacopts status w of
        (Err e, w1) \<Rightarrow> (Returned (Err e), w1)
      | (Panic m, w1) \<Rightarrow> (Returned (Panic m), w1)
      | (Ok i, w1) \<Rightarrow>
          (case send_update v runevent pacopts status i (store_checkRunID status i w1) of
             (r, w2) \<Rightarrow> (Returned r, w2)))"
proof (cases "Client v")
  case None
  have "run_caller (Suc (Suc (Suc (Suc n)))) v runevent pacopts status AtList w =
          run_caller (Suc (Suc (Suc n))) v runevent pacopts status
            (Returned (Panic ''nil pointer dereference'')) w"
    using None
    by (simp del: run_caller.simps
        add: run_caller.simps(2) [of "Suc (Suc (Suc n))"] caller_step_simps(2))
  then show ?thesis
    using None by (simp only: run_caller_Returned) (simp add: find_or_create_def)
next
  case (Some c)
  obtain g wg where g: "getExistingCheckRunID c (ApplicationID v) runevent status w = (g, wg)"
    by (cases "getExistingCheckRunID c (ApplicationID v) runevent status w")
  have foc: "find_or_create v runevent pacopts status w =
      (case g of Panic m \<Rightarrow> (Panic m, wg)
       | Ok (Some i) \<Rightarrow> (Ok (Some i), wg)
       | _ \<Rightarrow> createCheckRunStatus c runevent pacopts status wg)"
    using Some g by (simp add: find_or_create_def split: res.split option.split)
  have step: "caller_step v runevent pacopts status AtList w =
      (case g of Panic m \<Rightarrow> (Returned (Panic m), wg)
       | Ok (Some i) \<Rightarrow> (AtStore (Some i), wg)
       | _ \<Rightarrow> (AtCreate, wg))"
    using Some g by (simp add: caller_step_simps(2) split: res.split option.split)
  have unfold: "run_caller (Suc (Suc (Suc (Suc n)))) v runevent pacopts status AtList w =
      (case caller_step v runevent pacopts status AtList w of
         (at', w') \<Rightarrow> run_caller (Suc (Suc (Suc n))) v runevent pacopts status at' w')"
    by (rule run_caller.simps(2))
  consider (panic) m where "g = Panic m" | (found) i where "g = Ok (Some i)"
    | (other) "g = Ok None \<or> (\<exists>e. g = Err e)"
    by (cases g) (auto split: option.splits)
  then show ?thesis
  proof cases
    case panic
    then show ?thesis
      unfolding unfold step foc by (simp only: run_caller_Returned res.case prod.case)
  next
    case found
    then show ?thesis
      unfolding unfold step foc
      by (simp only: run_caller_AtStore res.case option.case prod.case)
  next
    case other
    then have s: "caller_step v runevent pacopts status AtList w = (AtCreate, wg)"
      and f: "find_or_create v runevent pacopts status w =
                createCheckRunStatus c runevent pacopts status wg"
      unfolding step foc by auto
    show ?thesis
      unfolding unfold s f prod.case run_caller_AtCreate [OF Some] ..
  qed
qed

text \<open>A caller on its own reaches its return in five steps, with the result and the
  effects of the function.\<close>

lemma run_caller_alone:
  "run_caller 5 v runevent pacopts status AtLoad w =
     (case getOrUpdateCheckRunStatus v runevent pacopts status w of (r, w') \<Rightarrow> (Returned r, w'))"
proof -
  have five: "(5::nat) = Suc (Suc (Suc (Suc (Suc 0))))"
    by simp
  have unfold: "run_caller (Suc (Suc (Suc (Suc (Suc 0))))) v runevent pacopts status AtLoad w =
      (case caller_step v runevent pacopts status AtLoad w of
         (at', w') \<Rightarrow> run_caller (Suc (Suc (Suc (Suc 0)))) v runevent pacopts status at' w')"
    by (rule run_caller.simps(2))
  show ?thesis
  proof (cases "load_checkRunID status w")
    case (Err e)
    then have "caller_step v runevent pacopts status AtLoad w = (Returned (Err e), w)"
      by (simp add: caller_step_simps(1))
    then show ?thesis
      unfolding five unfold using Err
      by (simp only: run_caller_Returned prod.case) (simp add: getOrUpdateCheckRunStatus_def)
  next
    case (Panic m)
    then have "caller_step v runevent pacopts status AtLoad w = (Returned (Panic m), w)"
      by (simp add: caller_step_simps(1))
    then show ?thesis
      unfolding five unfold using Panic
      by (simp only: run_caller_Returned prod.case) (simp add: getOrUpdateCheckRunStatus_def)
  next
    case (Ok p)
    obtain cached ok where p: "p = (cached, ok)" by (cases p)
    show ?thesis
    proof (cases ok)
      case True
      then have s: "caller_step v runevent pacopts status AtLoad w = (AtStore cached, w)"
        using Ok p by (simp add: caller_step_simps(1))
      have g: "getOrUpdateCheckRunStatus v runevent pacopts status w =
                 send_update v runevent pacopts status cached (store_checkRunID status cached w)"
        using Ok p True by (simp add: getOrUpdateCheckRunStatus_def)
      show ?thesis
        unfolding five unfold s g prod.case run_caller_AtStore ..
    next
      case False
      then have s: "caller_step v runevent pacopts status AtLoad w = (AtList, w)"
        using Ok p by (simp add: caller_step_simps(1))
      have g: "getOrUpdateCheckRunStatus v runevent pacopts status w =
          (case find_or_create v runevent pacopts status w of
             (Err e, w1) \<Rightarrow> (Err e, w1)
           | (Panic m, w1) \<Rightarrow> (Panic m, w1)
           | (Ok i, w1) \<Rightarrow>
               send_update v runevent pacopts status i (store_checkRunID status i w1))"
        using Ok p False by (simp add: getOrUpdateCheckRunStatus_def)
      show ?thesis
        unfolding five unfold s g prod.case run_caller_AtList
        by (simp split: prod.split res.split)
    qed
  qed
qed

lemma run_schedule_append:
  "run_schedule v runevent pacopts status1 status2 (xs @ ys) st =
     run_schedule v runevent pacopts status1 status2 ys
       (run_schedule v runevent pacopts status1 status2 xs st)"
  by (induction v runevent pacopts status1 status2 xs st rule: run_schedule.induct)
     (simp_all split: prod.split)

lemma run_schedule_First:
  "run_schedule v runevent pacopts status1 status2 (replicate n First) st =
     (case run_caller n v runevent pacopts status1 (first st) (shared st) of
        (at, w) \<Rightarrow> st\<lparr>first := at, shared := w\<rparr>)"
  by (induction n arbitrary: st) (simp_all split: prod.split)

lemma run_schedule_Second:
  "run_schedule v runevent pacopts status1 status2 (replicate n Second) st =
     (case run_caller n v runevent pacopts status2 (second st) (shared st) of
        (at, w) \<Rightarrow> st\<lparr>second := at, shared := w\<rparr>)"
  by (induction n arbitrary: st) (simp_all split: prod.split)

text \<open>The schedule in which the first caller returns before the second starts is the
  one call after the other.\<close>

lemma run_schedule_sequential:
  "run_schedule v runevent pacopts status1 status2 (replicate 5 First @ replicate 5 Second)
       \<lparr>first = AtLoad, second = AtLoad, shared = w\<rparr> =
     \<lparr>first = Returned (fst (getOrUpdateCheckRunStatus v runevent pacopts status1 w)),
      second = Returned (fst (getOrUpdateCheckRunStatus v runevent pacopts status2
                 (snd (getOrUpdateCheckRunStatus v runevent pacopts status1 w)))),
      shared = snd (getOrUpdateCheckRunStatus v runevent pacopts status2
                 (snd (getOrUpdateCheckRunStatus v runevent pacopts status1 w)))\<rparr>"
  unfolding run_schedule_append run_schedule_First run_schedule_Second
  by (simp add: run_caller_alone split: prod.split)

text \<open>
  C1, as the code has it. \<open>getOrUpdateCheckRunStatus\<close> reads the map at line 84 and
  writes it at line 99 with the remote listing and creation in between, and holds no lock.
  When one call has returned without error before the next one for the same
  \<open>PipelineRunName\<close> starts, the first call has issued at most one creation (exactly one
  when the map had no entry and the remote listing gave no check run), the second call
  issues none, and both send their update to the same check-run identifier. Nothing
  serialises two calls that run at the same time.
\<close>

theorem C1_one_call_after_the_other:
  assumes first_ok: "getOrUpdateCheckRunStatus v runevent pacopts status1 w = (Ok (), w1)"
    and same: "PipelineRunName status2 = PipelineRunName status1"
  shows "\<exists>cid.
      run_schedule v runevent pacopts status1 status2 (replicate 5 First @ replicate 5 Second)
          \<lparr>first = AtLoad, second = AtLoad, shared = w\<rparr> =
        \<lparr>first = Returned (Ok ()),
         second = Returned (fst (getOrUpdateCheckRunStatus v runevent pacopts status2 w1)),
         shared = snd (getOrUpdateCheckRunStatus v runevent pacopts status2 w1)\<rparr>
    \<and> length (create_requests (calls w1)) \<le> length (create_requests (calls w)) + 1
    \<and> (CheckRunIDS w (PipelineRunName status1) = None
         \<and> (\<forall>c i. Client v = Some c \<longrightarrow>
               fst (getExistingCheckRunID c (ApplicationID v) runevent status1 w) \<noteq> Ok (Some i))
         \<longrightarrow> length (create_requests (calls w1)) = length (create_requests (calls w)) + 1)
    \<and> updated_ids (calls w1) = updated_ids (calls w) @ [cid]
    \<and> create_requests (calls (snd (getOrUpdateCheckRunStatus v runevent pacopts status2 w1))) =
        create_requests (calls w1)
    \<and> updated_ids (calls (snd (getOrUpdateCheckRunStatus v runevent pacopts status2 w1))) =
        updated_ids (calls w1) @ [cid]"
proof -
  from getOrUpdate_Ok [OF first_ok] obtain cid where
    stored: "CheckRunIDS w1 (PipelineRunName status1) = Some (Int64Ptr (Some cid))"
    and client: "Client v \<noteq> None"
    and upd: "updated_ids (calls w1) = updated_ids (calls w) @ [cid]"
    and le: "length (create_requests (calls w1)) \<le> length (create_requests (calls w)) + 1"
    and ex: "CheckRunIDS w (PipelineRunName status1) = None
         \<and> (\<forall>c i. Client v = Some c \<longrightarrow>
               fst (getExistingCheckRunID c (ApplicationID v) runevent status1 w) \<noteq> Ok (Some i))
         \<longrightarrow> length (create_requests (calls w1)) = length (create_requests (calls w)) + 1"
    by blast
  from client obtain c where c: "Client v = Some c"
    by auto
  have hit: "getOrUpdateCheckRunStatus v runevent pacopts status2 w1 =
      send_update v runevent pacopts status2 (Some cid) (store_checkRunID status2 (Some cid) w1)"
    using stored same by (simp add: getOrUpdate_cache_hit)
  have second_calls: "calls (snd (getOrUpdateCheckRunStatus v runevent pacopts status2 w1)) =
      calls w1 @ [UpdateCheckRun (Organization runevent) (Repository runevent) cid
        (fst (update_options status2 pacopts (store_checkRunID status2 (Some cid) w1)))]"
    unfolding hit send_update_effect(1) using c by (simp add: calls_store_checkRunID)
  have sched: "run_schedule v runevent pacopts status1 status2
          (replicate 5 First @ replicate 5 Second)
          \<lparr>first = AtLoad, second = AtLoad, shared = w\<rparr> =
        \<lparr>first = Returned (Ok ()),
         second = Returned (fst (getOrUpdateCheckRunStatus v runevent pacopts status2 w1)),
         shared = snd (getOrUpdateCheckRunStatus v runevent pacopts status2 w1)\<rparr>"
    unfolding run_schedule_sequential using first_ok by simp
  show ?thesis
    using sched le ex upd second_calls
    by (simp add: create_requests_append updated_ids_append)
qed

lemma sample_first_call:
  "fst (getOrUpdateCheckRunStatus sample_Provider sample_Event sample_PacOpts sample_StatusOpts
          sample_world) = Ok ()"
  "calls (snd (getOrUpdateCheckRunStatus sample_Provider sample_Event sample_PacOpts
          sample_StatusOpts sample_world)) =
     [ListCheckRunsForRef ''org'' ''repo'' ''abc123'' (Some 7),
      CreateCheckRun ''org'' ''repo''
        \<lparr>ccr_Name = ''PAC / pr'', ccr_HeadSHA = ''abc123'', ccr_Status = Some ''in_progress'',
         ccr_DetailsURL = Some ''https://log'', ccr_ExternalID = Some ''run-1'',
         ccr_StartedAt = Some 1700000000000000000\<rparr>,
      UpdateCheckRun ''org'' ''repo'' 100
        \<lparr>ucr_Name = ''PAC / pr'', ucr_Status = Some ''completed'',
         ucr_Output = Some \<lparr>out_Title = Some ''caller title'',
                             out_Summary = Some ''caller summary'', out_Text = Some ''text''\<rparr>,
         ucr_DetailsURL = None, ucr_CompletedAt = Some 1700000000000000001,
         ucr_Conclusion = Some ''success''\<rparr>]"
  by (simp_all add: sample_Provider_def sample_Event_def sample_PacOpts_def sample_StatusOpts_def
      sample_world_def getOrUpdateCheckRunStatus_def load_checkRunID_def find_or_create_def
      getExistingCheckRunID_def remote_call_def sample_Client_def createCheckRunStatus_def
      time_Now_def store_checkRunID_def send_update_def update_options_def getCheckName_def)

theorem C1_one_call_after_the_other_witness:
  "first (run_schedule sample_Provider sample_Event sample_PacOpts sample_StatusOpts
            sample_StatusOpts (replicate 5 First @ replicate 5 Second)
            \<lparr>first = AtLoad, second = AtLoad, shared = sample_world\<rparr>) = Returned (Ok ())
   \<and> length (create_requests (calls (shared
        (run_schedule sample_Provider sample_Event sample_PacOpts sample_StatusOpts
            sample_StatusOpts (replicate 5 First @ replicate 5 Second)
            \<lparr>first = AtLoad, second = AtLoad, shared = sample_world\<rparr>)))) = 1
   \<and> updated_ids (calls (shared
        (run_schedule sample_Provider sample_Event sample_PacOpts sample_StatusOpts
            sample_StatusOpts (replicate 5 First @ replicate 5 Second)
            \<lparr>first = AtLoad, second = AtLoad, shared = sample_world\<rparr>))) = [100, 100]"
proof -
  obtain w1 where f: "getOrUpdateCheckRunStatus sample_Provider sample_Event sample_PacOpts
      sample_StatusOpts sample_world = (Ok (), w1)"
    using sample_first_call(1)
    by (cases "getOrUpdateCheckRunStatus sample_Provider sample_Event sample_PacOpts
      sample_StatusOpts sample_world") simp
  have c1: "create_requests (calls w1) =
      [\<lparr>ccr_Name = ''PAC / pr'', ccr_HeadSHA = ''abc123'', ccr_Status = Some ''in_progress'',
        ccr_DetailsURL = Some ''https://log'', ccr_ExternalID = Some ''run-1'',
        ccr_StartedAt = Some 1700000000000000000\<rparr>]"
    and u1: "updated_ids (calls w1) = [100]"
    using sample_first_call(2) f by simp_all
  have e: "calls sample_world = []"
    by (simp add: sample_world_def)
  show ?thesis
    using C1_one_call_after_the_other [OF f, of sample_StatusOpts] c1 u1 e
    by auto
qed

text \<open>
  The claim as stated fails: when both callers load before either stores, each finds the
  map empty and the remote listing empty, each creates a check run, and the two updates go
  to two different check-run identifiers.
\<close>

theorem C1_two_creations_counterexample:
  "CheckRunIDS sample_world (PipelineRunName sample_StatusOpts) = None
   \<and> first (run_schedule sample_Provider sample_Event sample_PacOpts sample_StatusOpts
        sample_StatusOpts [First, Second, First, Second, First, Second, First, Second, First, Second]
        \<lparr>first = AtLoad, second = AtLoad, shared = sample_world\<rparr>) = Returned (Ok ())
   \<and> second (run_schedule sample_Provider sample_Event sample_PacOpts sample_StatusOpts
        sample_StatusOpts [First, Second, First, Second, First, Second, First, Second, First, Second]
        \<lparr>first = AtLoad, second = AtLoad, shared = sample_world\<rparr>) = Returned (Ok ())
   \<and> length (create_requests (calls (shared
        (run_schedule sample_Provider sample_Event sample_PacOpts sample_StatusOpts
          sample_StatusOpts [First, Second, First, Second, First, Second, First, Second, First, Second]
          \<lparr>first = AtLoad, second = AtLoad, shared = sample_world\<rparr>)))) = 2
   \<and> updated_ids (calls (shared
        (run_schedule sample_Provider sample_Event sample_PacOpts sample_StatusOpts
          sample_StatusOpts [First, Second, First, Second, First, Second, First, Second, First, Second]
          \<lparr>first = AtLoad, second = AtLoad, shared = sample_world\<rparr>))) = [100, 101]"
  by (simp add: caller_step_simps sample_Provider_def sample_Event_def sample_PacOpts_def
      sample_StatusOpts_def sample_world_def load_checkRunID_def
      getExistingCheckRunID_def remote_call_def sample_Client_def createCheckRunStatus_def
      time_Now_def store_checkRunID_def send_update_def update_options_def getCheckName_def)

end
